theory Spec2Isabelle
  imports Complex_Main
begin

section \<open>Values, nodes, links and graphs\<close>

text \<open>
  The program is JavaScript/TypeScript: a property of an object holds a string, a number or
  nothing. A property that is missing reads as \<open>undefined\<close>, so \<open>Undefined\<close> stands
  both for a missing property and for a cell that is empty. A number is a finite double,
  taken as the rational it is; NaN and the infinities are not modelled, and neither is
  \<open>null\<close>. What the language or a library computes on doubles (\<open>toFixed\<close>, \<open>parseInt\<close>,
  \<open>toString\<close>, \<open>Math.sqrt\<close>, the steps of the layout) is a parameter wherever it occurs.
\<close>

datatype jsval = Undefined | Num rat | Str string

text \<open>JavaScript truthiness, as used by \<open>a && b\<close>, \<open>a || b\<close> and \<open>if (a)\<close>.\<close>

fun truthy :: "jsval \<Rightarrow> bool" where
  "truthy Undefined = False"
| "truthy (Num r) = (r \<noteq> 0)"
| "truthy (Str s) = (s \<noteq> [])"

text \<open>\<open>a || b\<close> on values.\<close>

definition js_or :: "jsval \<Rightarrow> jsval \<Rightarrow> jsval" where
  "js_or a b = (if truthy a then a else b)"

text \<open>
  \<open>types.ts\<close>: interface Node. The types are erased at run time, and the decoders build
  nodes from whatever the cells of a file hold, so every field is a \<open>jsval\<close>.
\<close>

record Node =
  nid :: jsval
  weight :: jsval
  group :: jsval
  groupName :: jsval
  xpos :: jsval
  ypos :: jsval
  vx :: jsval
  vy :: jsval
  fx :: jsval
  fy :: jsval
  nsize :: jsval

text \<open>\<open>source: string | Node\<close>: a raw id, or the node object the layout put in its place.\<close>

datatype endpoint = Raw jsval | Ref Node

record Link =
  source :: endpoint
  target :: endpoint
  lweight :: jsval
  lvalue :: jsval

record Stats =
  snodes :: jsval
  slinks :: jsval
  sgroups :: jsval

record Meta =
  mfile :: jsval
  duration :: jsval
  stats :: "Stats option"

record GraphData =
  nodes :: "Node list"
  links :: "Link list"
  meta :: "Meta option"
  group_names :: "(string \<times> string) list option"

text \<open>The errors of the import and export paths: every \<open>throw\<close> of the source, and the
  TypeError of reading a property of \<open>undefined\<close> or calling a method a value lacks.\<close>

datatype error =
    MissingNodesOrLinks
  | MissingNodesSheet
  | MissingLinksSheet
  | ReadNodesFailed
  | ReadLinksFailed
  | TypeError
  | SqlError
  | NodeNotFound

text \<open>The object \<open>{ id: .., weight: .. }\<close> the decoders push: no other property is set.\<close>

definition mk_node :: "jsval \<Rightarrow> jsval \<Rightarrow> Node" where
  "mk_node i w = \<lparr>nid = i, weight = w, group = Undefined, groupName = Undefined,
     xpos = Undefined, ypos = Undefined, vx = Undefined, vy = Undefined,
     fx = Undefined, fy = Undefined, nsize = Undefined\<rparr>"

text \<open>The object \<open>{ source: .., target: .., weight: .. }\<close> the decoders push.\<close>

definition mk_link :: "jsval \<Rightarrow> jsval \<Rightarrow> jsval \<Rightarrow> Link" where
  "mk_link s t w = \<lparr>source = Raw s, target = Raw t, lweight = w, lvalue = Undefined\<rparr>"

section \<open>Tables\<close>

text \<open>
  A row object, as \<open>XLSX.utils.sheet_to_json\<close> returns it and \<open>json_to_sheet\<close> takes it:
  keys with values. An empty cell gives no key. \<open>row.k\<close> is \<open>getp row k\<close>, and
  \<open>'k' in row\<close> is \<open>has_key row k\<close>.
\<close>

type_synonym row = "(string \<times> jsval) list"

definition getp :: "row \<Rightarrow> string \<Rightarrow> jsval" where
  "getp r k = (case map_of r k of None \<Rightarrow> Undefined | Some v \<Rightarrow> v)"

definition has_key :: "row \<Rightarrow> string \<Rightarrow> bool" where
  "has_key r k = (k \<in> fst ` set r)"

text \<open>A JavaScript \<open>Map\<close>: \<open>get\<close> of a key that was never set is \<open>undefined\<close>.\<close>

type_synonym jsmap = "jsval \<Rightarrow> jsval option"

definition map_get :: "jsmap \<Rightarrow> jsval \<Rightarrow> jsval" where
  "map_get m k = (case m k of None \<Rightarrow> Undefined | Some v \<Rightarrow> v)"

text \<open>
  A workbook as \<open>XLSX.read\<close> gives it: the sheets "Nodes", "Links" and "Meta", each
  absent or the rows \<open>sheet_to_json\<close> returns for it.
\<close>

record Workbook =
  Nodes_sheet :: "row list option"
  Links_sheet :: "row list option"
  Meta_sheet :: "row list option"

text \<open>
  A table of the database file as \<open>db.exec("SELECT * FROM t")\<close> gives it: the column
  names and the rows of values. A table that does not exist is \<open>None\<close>.
\<close>

record Table =
  columns :: "string list"
  tvalues :: "jsval list list"

record Database =
  nodes_table :: "Table option"
  links_table :: "Table option"
  meta_table :: "Table option"

text \<open>
  The result of \<open>JSON.parse\<close> on an imported file: \<open>nodes\<close> and \<open>links\<close> may be
  missing (\<open>None\<close>). A document where they are present and are not arrays is not
  modelled.
\<close>

record JsonDoc =
  jnodes :: "Node list option"
  jlinks :: "Link list option"
  jmeta :: "Meta option"
  jgroup_names :: "(string \<times> string) list option"

section \<open>index.js: decoding the tabular formats\<close>

text \<open>
  \<open>parseInt(v) || n\<close>. \<open>parseInt\<close> is a builtin of the language and a parameter here:
  it returns a number, or NaN (\<open>None\<close>), which is falsy as 0 is.
\<close>

definition parse_or :: "(jsval \<Rightarrow> rat option) \<Rightarrow> jsval \<Rightarrow> nat \<Rightarrow> jsval" where
  "parse_or parseInt v n =
     (case parseInt v of None \<Rightarrow> Num (of_nat n)
      | Some r \<Rightarrow> if r \<noteq> 0 then Num r else Num (of_nat n))"

text \<open>\<open>let meta = { file: file.name, stats: { nodes: nodes.length, links: links.length } }\<close>\<close>

definition default_meta :: "string \<Rightarrow> nat \<Rightarrow> nat \<Rightarrow> Meta" where
  "default_meta fname n l =
     \<lparr>mfile = Str fname, duration = Undefined,
      stats = Some \<lparr>snodes = Num (of_nat n), slinks = Num (of_nat l), sgroups = Undefined\<rparr>\<rparr>"

text \<open>The meta object rebuilt from \<open>metaObj\<close>, the key/value pairs of the Meta table.\<close>

definition meta_of_obj :: "(jsval \<Rightarrow> rat option) \<Rightarrow> string \<Rightarrow> jsmap \<Rightarrow> nat \<Rightarrow> nat \<Rightarrow> Meta" where
  "meta_of_obj parseInt fname metaObj n l =
     \<lparr>mfile = js_or (map_get metaObj (Str ''filename'')) (Str fname),
      duration = js_or (map_get metaObj (Str ''duration'')) (Str ''N/A''),
      stats = Some \<lparr>snodes = parse_or parseInt (map_get metaObj (Str ''total_nodes'')) n,
                    slinks = parse_or parseInt (map_get metaObj (Str ''total_links'')) l,
                    sgroups = Undefined\<rparr>\<rparr>"

text \<open>
  The body of \<open>rawNodes.forEach(row => ...)\<close> of the workbook import: the state is the
  array \<open>nodes\<close> and the map \<open>idToLabelMap\<close>.
\<close>

definition wb_node_step :: "bool \<Rightarrow> row \<Rightarrow> Node list \<times> jsmap \<Rightarrow> Node list \<times> jsmap" where
  "wb_node_step isNewSchema r st =
     (case st of (ns, m) \<Rightarrow>
        if isNewSchema
        then (ns @ [mk_node (getp r ''label'') (getp r ''weight'')],
              m(getp r ''id'' \<mapsto> getp r ''label''))
        else (ns @ [mk_node (getp r ''id'') (getp r ''weight'')],
              m(getp r ''id'' \<mapsto> getp r ''id'')))"

text \<open>\<open>const isNewSchema = rawNodes.length > 0 && ('label' in rawNodes[0])\<close>\<close>

definition isNewSchema :: "row list \<Rightarrow> bool" where
  "isNewSchema rawNodes = (case rawNodes of [] \<Rightarrow> False | r # _ \<Rightarrow> has_key r ''label'')"

definition wb_read_nodes :: "row list \<Rightarrow> Node list \<times> jsmap" where
  "wb_read_nodes rawNodes = fold (wb_node_step (isNewSchema rawNodes)) rawNodes ([], Map.empty)"

text \<open>
  The body of \<open>rawLinks.forEach(row => ...)\<close>: the link is pushed when both labels looked
  up in the map are truthy.
\<close>

definition wb_link_step :: "jsmap \<Rightarrow> row \<Rightarrow> Link list \<Rightarrow> Link list" where
  "wb_link_step m r ls =
     (let sLabel = map_get m (getp r ''source'');
          tLabel = map_get m (getp r ''target'')
      in if truthy sLabel \<and> truthy tLabel
         then ls @ [mk_link sLabel tLabel (getp r ''weight'')]
         else ls)"

definition wb_read_links :: "jsmap \<Rightarrow> row list \<Rightarrow> Link list" where
  "wb_read_links m rawLinks = fold (wb_link_step m) rawLinks []"

text \<open>\<open>metaArr.forEach(item => metaObj[item.key] = item.value)\<close>\<close>

definition wb_meta_obj :: "row list \<Rightarrow> jsmap" where
  "wb_meta_obj metaArr = fold (\<lambda>item m. m(getp item ''key'' \<mapsto> getp item ''value'')) metaArr Map.empty"

text \<open>
  The workbook branch of \<open>importAndVisualize\<close>, up to the object given to
  \<open>processResult\<close>. \<open>fname\<close> is \<open>file.name\<close>.
\<close>

definition decode_workbook ::
  "(jsval \<Rightarrow> rat option) \<Rightarrow> string \<Rightarrow> Workbook \<Rightarrow> error + GraphData" where
  "decode_workbook parseInt fname wb =
     (case Nodes_sheet wb of
        None \<Rightarrow> Inl MissingNodesSheet
      | Some rawNodes \<Rightarrow>
          (case wb_read_nodes rawNodes of (ns, m) \<Rightarrow>
             (case Links_sheet wb of
                None \<Rightarrow> Inl MissingLinksSheet
              | Some rawLinks \<Rightarrow>
                  (let ls = wb_read_links m rawLinks;
                       mt = (case Meta_sheet wb of
                               None \<Rightarrow> default_meta fname (length ns) (length ls)
                             | Some metaArr \<Rightarrow>
                                 meta_of_obj parseInt fname (wb_meta_obj metaArr) (length ns) (length ls))
                   in Inr \<lparr>nodes = ns, links = ls, meta = Some mt, group_names = None\<rparr>))))"

text \<open>
  \<open>cols.forEach((col, i) => rowObj[col] = row[i])\<close>: a later column of the same name
  overwrites an earlier one, and a column beyond the row's end gets \<open>undefined\<close>.
\<close>

definition row_obj :: "string list \<Rightarrow> jsval list \<Rightarrow> row" where
  "row_obj cols r = rev (zip cols (r @ replicate (length cols - length r) Undefined))"

definition db_node_step :: "bool \<Rightarrow> string list \<Rightarrow> jsval list \<Rightarrow> Node list \<times> jsmap \<Rightarrow> Node list \<times> jsmap" where
  "db_node_step hasLabel cols r st =
     (case st of (ns, m) \<Rightarrow>
        (let rowObj = row_obj cols r
         in if hasLabel
            then (ns @ [mk_node (getp rowObj ''label'') (getp rowObj ''weight'')],
                  m(getp rowObj ''id'' \<mapsto> getp rowObj ''label''))
            else (ns @ [mk_node (getp rowObj ''id'') (getp rowObj ''weight'')],
                  m(getp rowObj ''id'' \<mapsto> getp rowObj ''id''))))"

text \<open>
  \<open>hasLabel\<close> comes from \<open>PRAGMA table_info(nodes)\<close>, the declared columns, which are the
  columns of \<open>SELECT *\<close>. When the table has no row \<open>db.exec\<close> returns no result and the
  loop does not run.
\<close>

definition db_read_nodes :: "Table \<Rightarrow> Node list \<times> jsmap" where
  "db_read_nodes t =
     fold (db_node_step (''label'' \<in> set (columns t)) (columns t)) (tvalues t) ([], Map.empty)"

definition db_link_step :: "jsmap \<Rightarrow> string list \<Rightarrow> jsval list \<Rightarrow> Link list \<Rightarrow> Link list" where
  "db_link_step m cols r ls =
     (let l = row_obj cols r;
          sourceLabel = map_get m (getp l ''source'');
          targetLabel = map_get m (getp l ''target'')
      in if truthy sourceLabel \<and> truthy targetLabel
         then ls @ [mk_link sourceLabel targetLabel (getp l ''weight'')]
         else ls)"

definition db_read_links :: "jsmap \<Rightarrow> Table \<Rightarrow> Link list" where
  "db_read_links m t = fold (db_link_step m (columns t)) (tvalues t) []"

text \<open>\<open>vals.forEach(row => metaObj[row[0]] = row[1])\<close>\<close>

definition cell_at :: "jsval list \<Rightarrow> nat \<Rightarrow> jsval" where
  "cell_at r i = (if i < length r then r ! i else Undefined)"

definition db_meta_obj :: "jsval list list \<Rightarrow> jsmap" where
  "db_meta_obj vals = fold (\<lambda>r m. m(cell_at r 0 \<mapsto> cell_at r 1)) vals Map.empty"

text \<open>
  The database branch of \<open>importAndVisualize\<close>, up to the object given to
  \<open>processResult\<close>. A missing nodes or links table makes the read throw; a missing meta
  table is ignored.
\<close>

definition decode_sqlite ::
  "(jsval \<Rightarrow> rat option) \<Rightarrow> string \<Rightarrow> Database \<Rightarrow> error + GraphData" where
  "decode_sqlite parseInt fname db =
     (case nodes_table db of
        None \<Rightarrow> Inl ReadNodesFailed
      | Some nt \<Rightarrow>
          (case db_read_nodes nt of (ns, m) \<Rightarrow>
             (case links_table db of
                None \<Rightarrow> Inl ReadLinksFailed
              | Some lt \<Rightarrow>
                  (let ls = db_read_links m lt;
                       mt = (case meta_table db of
                               None \<Rightarrow> default_meta fname (length ns) (length ls)
                             | Some t \<Rightarrow>
                                 if tvalues t = [] then default_meta fname (length ns) (length ls)
                                 else meta_of_obj parseInt fname (db_meta_obj (tvalues t))
                                        (length ns) (length ls))
                   in Inr \<lparr>nodes = ns, links = ls, meta = Some mt, group_names = None\<rparr>))))"

section \<open>index.js: encoding\<close>

text \<open>\<open>arr.map(f)\<close> where \<open>f\<close> may throw: the first exception ends the whole map.\<close>

fun mapM :: "('a \<Rightarrow> error + 'b) \<Rightarrow> 'a list \<Rightarrow> error + 'b list" where
  "mapM f [] = Inr []"
| "mapM f (x # xs) =
     (case f x of
        Inl e \<Rightarrow> Inl e
      | Inr y \<Rightarrow> (case mapM f xs of Inl e \<Rightarrow> Inl e | Inr ys \<Rightarrow> Inr (y # ys)))"

text \<open>
  \<open>Number(x.toFixed(2))\<close> is computed by the language on doubles: it is the parameter
  \<open>fix2\<close> of the workbook export. \<open>rounded fix2 w\<close> is what the export writes for a
  weight \<open>w\<close> that is a number.
\<close>

definition rounded :: "(rat \<Rightarrow> rat) \<Rightarrow> jsval \<Rightarrow> jsval" where
  "rounded fix2 v = (case v of Num r \<Rightarrow> Num (fix2 r) | _ \<Rightarrow> v)"

text \<open>\<open>const getId = (n) => (typeof n === 'object' && n.id) ? n.id : n\<close>\<close>

fun getId :: "endpoint \<Rightarrow> endpoint" where
  "getId (Ref n) = (if truthy (nid n) then Raw (nid n) else Ref n)"
| "getId (Raw v) = Raw v"

text \<open>
  What a sheet holds for a value of a row object: a string or a number is the cell, and an
  object is no cell value, so the cell is empty.
\<close>

fun cell_of :: "endpoint \<Rightarrow> jsval" where
  "cell_of (Raw v) = v"
| "cell_of (Ref n) = Undefined"

text \<open>A row object written to a sheet and read back: an undefined value leaves no key.\<close>

definition written :: "row \<Rightarrow> row" where
  "written r = filter (\<lambda>kv. snd kv \<noteq> Undefined) r"

definition xl_node_row :: "(rat \<Rightarrow> rat) \<Rightarrow> Node \<Rightarrow> error + row" where
  "xl_node_row fix2 n =
     (case weight n of
        Num r \<Rightarrow> Inr [(''id'', nid n), (''weight'', Num (fix2 r))]
      | _ \<Rightarrow> Inl TypeError)"

definition xl_link_row :: "(rat \<Rightarrow> rat) \<Rightarrow> Link \<Rightarrow> error + row" where
  "xl_link_row fix2 l =
     (case lweight l of
        Num r \<Rightarrow> Inr [(''source'', cell_of (getId (source l))),
                       (''target'', cell_of (getId (target l))),
                       (''weight'', Num (fix2 r))]
      | _ \<Rightarrow> Inl TypeError)"

definition xl_meta_rows :: "Meta \<Rightarrow> row list" where
  "xl_meta_rows m =
     [[(''key'', Str ''filename''), (''value'', mfile m)],
      [(''key'', Str ''duration''), (''value'', duration m)],
      [(''key'', Str ''total_nodes''),
       (''value'', (case stats m of Some st \<Rightarrow> snodes st | None \<Rightarrow> Num 0))],
      [(''key'', Str ''total_links''),
       (''value'', (case stats m of Some st \<Rightarrow> slinks st | None \<Rightarrow> Num 0))]]"

text \<open>
  \<open>exportDataToExcel\<close> on a graph that is there (with no graph it returns at once): the
  workbook written, or the TypeError of \<open>toFixed\<close> on a weight that is not a number.
\<close>

definition exportDataToExcel :: "(rat \<Rightarrow> rat) \<Rightarrow> GraphData \<Rightarrow> error + Workbook" where
  "exportDataToExcel fix2 g =
     (case mapM (xl_node_row fix2) (nodes g) of
        Inl e \<Rightarrow> Inl e
      | Inr nodesArr \<Rightarrow>
          (case mapM (xl_link_row fix2) (links g) of
             Inl e \<Rightarrow> Inl e
           | Inr linksArr \<Rightarrow>
               Inr \<lparr>Nodes_sheet = Some (map written nodesArr),
                    Links_sheet = Some (map written linksArr),
                    Meta_sheet = (case meta g of
                                    None \<Rightarrow> None
                                  | Some m \<Rightarrow> Some (map written (xl_meta_rows m)))\<rparr>))"

text \<open>
  \<open>globalGraphData.nodes.forEach((n, i) => nodeMap.set(n.id, i + 1))\<close>, from index \<open>i\<close> on.
\<close>

fun nodeMap_from :: "nat \<Rightarrow> Node list \<Rightarrow> jsmap \<Rightarrow> jsmap" where
  "nodeMap_from i [] m = m"
| "nodeMap_from i (n # ns) m = nodeMap_from (Suc i) ns (m(nid n \<mapsto> Num (of_nat (Suc i))))"

text \<open>A statement run with its values bound: sql.js refuses to bind \<open>undefined\<close>.\<close>

definition bind_row :: "jsval list \<Rightarrow> error + jsval list" where
  "bind_row vs = (if Undefined \<in> set vs then Inl SqlError else Inr vs)"

text \<open>
  The column affinities of SQLite. A number stored in a TEXT column becomes its text, and
  a text stored in a REAL column becomes the number it spells, if it spells one. The text
  of a number and the number of a text are SQLite's, and parameters here. The INTEGER
  columns only ever get surrogates, which are integers and are stored as they are.
\<close>

record Sqlite =
  sql_text :: "rat \<Rightarrow> string"
  sql_num :: "string \<Rightarrow> rat option"

definition text_affinity :: "Sqlite \<Rightarrow> jsval \<Rightarrow> jsval" where
  "text_affinity sq v = (case v of Num r \<Rightarrow> Str (sql_text sq r) | _ \<Rightarrow> v)"

definition real_affinity :: "Sqlite \<Rightarrow> jsval \<Rightarrow> jsval" where
  "real_affinity sq v =
     (case v of
        Str s \<Rightarrow> (case sql_num sq s of Some r \<Rightarrow> Num r | None \<Rightarrow> Str s)
      | _ \<Rightarrow> v)"

text \<open>
  The node inserts into \<open>nodes (id INTEGER PRIMARY KEY, label TEXT, weight REAL)\<close>.
  \<open>id\<close> is the primary key, so a second row with an id already in the table fails;
  \<open>seen\<close> are the ids inserted so far.
\<close>

fun insert_nodes :: "Sqlite \<Rightarrow> jsmap \<Rightarrow> jsval list \<Rightarrow> Node list \<Rightarrow> error + jsval list list" where
  "insert_nodes sq m seen [] = Inr []"
| "insert_nodes sq m seen (n # ns) =
     (case bind_row [map_get m (nid n), nid n, weight n] of
        Inl e \<Rightarrow> Inl e
      | Inr r \<Rightarrow>
          if map_get m (nid n) \<in> set seen then Inl SqlError
          else (case insert_nodes sq m (map_get m (nid n) # seen) ns of
                  Inl e \<Rightarrow> Inl e
                | Inr rs \<Rightarrow>
                    Inr ([map_get m (nid n), text_affinity sq (nid n), real_affinity sq (weight n)]
                           # rs)))"

text \<open>\<open>nodeMap.get(getLabel(e))\<close>: an object is no key of the map.\<close>

fun surrogate :: "jsmap \<Rightarrow> endpoint \<Rightarrow> jsval" where
  "surrogate m (Raw v) = map_get m v"
| "surrogate m (Ref n) = Undefined"

text \<open>
  The link inserts into \<open>links (source INTEGER, target INTEGER, weight REAL)\<close>: a link is
  written when both surrogate ids are truthy.
\<close>

fun insert_links :: "Sqlite \<Rightarrow> jsmap \<Rightarrow> Link list \<Rightarrow> error + jsval list list" where
  "insert_links sq m [] = Inr []"
| "insert_links sq m (l # ls) =
     (let sId = surrogate m (getId (source l));
          tId = surrogate m (getId (target l))
      in if truthy sId \<and> truthy tId
         then (case bind_row [sId, tId, lweight l] of
                 Inl e \<Rightarrow> Inl e
               | Inr r \<Rightarrow>
                   (case insert_links sq m ls of
                      Inl e \<Rightarrow> Inl e
                    | Inr rs \<Rightarrow> Inr ([sId, tId, real_affinity sq (lweight l)] # rs)))
         else insert_links sq m ls)"

text \<open>
  \<open>v.toString()\<close>: a TypeError on \<open>undefined\<close>. The text of a number is a builtin of the
  language and a parameter here.
\<close>

definition js_toString :: "(rat \<Rightarrow> string) \<Rightarrow> jsval \<Rightarrow> error + jsval" where
  "js_toString numText v =
     (case v of Undefined \<Rightarrow> Inl TypeError | Num r \<Rightarrow> Inr (Str (numText r)) | Str s \<Rightarrow> Inr (Str s))"

text \<open>The inserts into \<open>meta (key TEXT PRIMARY KEY, value TEXT)\<close>.\<close>

definition insert_meta :: "(rat \<Rightarrow> string) \<Rightarrow> Sqlite \<Rightarrow> Meta option \<Rightarrow> error + jsval list list" where
  "insert_meta numText sq mo =
     (case mo of
        None \<Rightarrow> Inr []
      | Some m \<Rightarrow>
          (case bind_row [Str ''filename'', mfile m] of
             Inl e \<Rightarrow> Inl e
           | Inr r1 \<Rightarrow>
               (case bind_row [Str ''duration'', duration m] of
                  Inl e \<Rightarrow> Inl e
                | Inr r2 \<Rightarrow>
                    (let row1 = [Str ''filename'', text_affinity sq (mfile m)];
                         row2 = [Str ''duration'', text_affinity sq (duration m)]
                     in case stats m of
                          None \<Rightarrow> Inr [row1, row2]
                        | Some st \<Rightarrow>
                            (case js_toString numText (snodes st) of
                               Inl e \<Rightarrow> Inl e
                             | Inr n \<Rightarrow>
                                 (case js_toString numText (slinks st) of
                                    Inl e \<Rightarrow> Inl e
                                  | Inr l \<Rightarrow>
                                      Inr [row1, row2, [Str ''total_nodes'', n],
                                           [Str ''total_links'', l]]))))))"

text \<open>
  \<open>exportDataToSQLite\<close> on a graph that is there: the database exported, or the error
  that the \<open>catch\<close> reports, in which case no file is written.
\<close>

definition exportDataToSQLite ::
  "(rat \<Rightarrow> string) \<Rightarrow> Sqlite \<Rightarrow> GraphData \<Rightarrow> error + Database" where
  "exportDataToSQLite numText sq g =
     (let nodeMap = nodeMap_from 0 (nodes g) Map.empty
      in case insert_nodes sq nodeMap [] (nodes g) of
           Inl e \<Rightarrow> Inl e
         | Inr nrows \<Rightarrow>
             (case insert_links sq nodeMap (links g) of
                Inl e \<Rightarrow> Inl e
              | Inr lrows \<Rightarrow>
                  (case insert_meta numText sq (meta g) of
                     Inl e \<Rightarrow> Inl e
                   | Inr mrows \<Rightarrow>
                       Inr \<lparr>nodes_table = Some \<lparr>columns = [''id'', ''label'', ''weight''], tvalues = nrows\<rparr>,
                            links_table = Some \<lparr>columns = [''source'', ''target'', ''weight''], tvalues = lrows\<rparr>,
                            meta_table = Some \<lparr>columns = [''key'', ''value''], tvalues = mrows\<rparr>\<rparr>)))"

section \<open>index.js: the Plain format and the import into the page\<close>

text \<open>\<open>exportData\<close>: \<open>JSON.stringify(globalGraphData)\<close>, as the document it denotes.\<close>

definition encode_plain :: "GraphData \<Rightarrow> JsonDoc" where
  "encode_plain g =
     \<lparr>jnodes = Some (nodes g), jlinks = Some (links g), jmeta = meta g,
      jgroup_names = group_names g\<rparr>"

text \<open>The check that opens \<open>processResult\<close>: an array, also an empty one, is truthy.\<close>

definition decode_plain :: "JsonDoc \<Rightarrow> error + GraphData" where
  "decode_plain result =
     (case jnodes result of
        None \<Rightarrow> Inl MissingNodesOrLinks
      | Some ns \<Rightarrow>
          (case jlinks result of
             None \<Rightarrow> Inl MissingNodesOrLinks
           | Some ls \<Rightarrow>
               Inr \<lparr>nodes = ns, links = ls, meta = jmeta result,
                    group_names = jgroup_names result\<rparr>))"

text \<open>The page: the global graph and \<open>window.currentFile\<close>.\<close>

record Page =
  globalGraphData :: "GraphData option"
  currentFile :: jsval

text \<open>
  \<open>nodeIds.has(e) || nodeIds.has(e.id)\<close> for an endpoint \<open>e\<close>: reading \<open>.id\<close> of a string
  or a number gives \<open>undefined\<close>, and of \<open>undefined\<close> throws.
\<close>

fun has_end :: "jsval list \<Rightarrow> endpoint \<Rightarrow> error + bool" where
  "has_end ids (Ref n) = Inr (nid n \<in> set ids)"
| "has_end ids (Raw v) =
     (if v \<in> set ids then Inr True
      else if v = Undefined then Inl TypeError
      else Inr (Undefined \<in> set ids))"

fun filter_links :: "jsval list \<Rightarrow> Link list \<Rightarrow> error + Link list" where
  "filter_links ids [] = Inr []"
| "filter_links ids (l # ls) =
     (case has_end ids (source l) of
        Inl e \<Rightarrow> Inl e
      | Inr a \<Rightarrow>
          if a
          then (case has_end ids (target l) of
                  Inl e \<Rightarrow> Inl e
                | Inr b \<Rightarrow>
                    (case filter_links ids ls of
                       Inl e \<Rightarrow> Inl e
                     | Inr r \<Rightarrow> Inr (if b then l # r else r)))
          else filter_links ids ls)"

text \<open>
  What \<open>renderGraph\<close> needs of its data after it has stored it: the layout looks every raw
  endpoint up among the node ids and throws "node not found" when it is not there, and the
  titles drawn afterwards call \<open>toFixed\<close> on every weight.
\<close>

fun resolvable :: "jsval list \<Rightarrow> endpoint \<Rightarrow> bool" where
  "resolvable ids (Ref n) = True"
| "resolvable ids (Raw v) = (v \<in> set ids)"

fun is_num :: "jsval \<Rightarrow> bool" where
  "is_num (Num r) = True"
| "is_num v = False"

definition layout_ok :: "GraphData \<Rightarrow> bool" where
  "layout_ok d =
     list_all (\<lambda>l. resolvable (map nid (nodes d)) (source l) \<and>
                    resolvable (map nid (nodes d)) (target l)) (links d)"

definition titles_ok :: "GraphData \<Rightarrow> bool" where
  "titles_ok d =
     (list_all (\<lambda>l. is_num (lweight l)) (links d) \<and> list_all (\<lambda>n. is_num (weight n)) (nodes d))"

text \<open>\<open>renderGraph(data)\<close>: the first statement is \<open>globalGraphData = data\<close>.\<close>

definition renderGraph :: "GraphData \<Rightarrow> Page \<Rightarrow> Page \<times> error option" where
  "renderGraph d st =
     (st\<lparr>globalGraphData := Some d\<rparr>,
      if \<not> layout_ok d then Some NodeNotFound
      else if \<not> titles_ok d then Some TypeError
      else None)"

definition applyNodeFilter :: "nat \<Rightarrow> Page \<Rightarrow> Page \<times> error option" where
  "applyNodeFilter limit st =
     (case globalGraphData st of
        None \<Rightarrow> (st, None)
      | Some g \<Rightarrow>
          (case filter_links (map nid (take limit (nodes g))) (links g) of
             Inl e \<Rightarrow> (st, Some e)
           | Inr ls \<Rightarrow> renderGraph (g\<lparr>nodes := take limit (nodes g), links := ls\<rparr>) st))"

text \<open>
  \<open>processResult(result)\<close> with its caller's \<open>catch\<close>: the page afterwards, and the error
  reported to the user if there is one. The slider is taken to hold the value written to it.
\<close>

definition processResult :: "string \<Rightarrow> JsonDoc \<Rightarrow> Page \<Rightarrow> Page \<times> error option" where
  "processResult fname result st =
     (case decode_plain result of
        Inl e \<Rightarrow> (st, Some e)
      | Inr g \<Rightarrow>
          applyNodeFilter (min 200 (length (nodes g)))
            (st\<lparr>globalGraphData := Some g,
                currentFile := (case meta g of
                                  None \<Rightarrow> Str fname
                                | Some m \<Rightarrow> if truthy (mfile m) then mfile m else Str fname)\<rparr>))"

section \<open>App.tsx: the state of the application\<close>

text \<open>
  The state variables of \<open>App\<close> that the import, the deletion and the export touch.
  \<open>graphData\<close> and \<open>filteredData\<close> hold what \<open>JSON.parse\<close> returned, so they are
  documents. \<open>stats\<close> is \<open>json.meta?.stats\<close>.
\<close>

record AppState =
  graphData :: "JsonDoc option"
  filteredData :: "JsonDoc option"
  nodeCount :: nat
  selectedNode :: "Node option"
  contextOpen :: bool
  shownStats :: "Stats option"

text \<open>\<open>(typeof e === 'object') ? e.id : e\<close>\<close>

fun end_id :: "endpoint \<Rightarrow> jsval" where
  "end_id (Ref n) = nid n"
| "end_id (Raw v) = v"

text \<open>\<open>filterData(data, limit)\<close> on data that is there; a missing array is a TypeError.\<close>

definition filterData :: "JsonDoc \<Rightarrow> nat \<Rightarrow> error + JsonDoc" where
  "filterData d limit =
     (case jnodes d of
        None \<Rightarrow> Inl TypeError
      | Some ns \<Rightarrow>
          (case jlinks d of
             None \<Rightarrow> Inl TypeError
           | Some ls \<Rightarrow>
               Inr (d\<lparr>jnodes := Some (take limit ns),
                       jlinks := Some (filter (\<lambda>l. end_id (source l) \<in> set (map nid (take limit ns)) \<and>
                                                    end_id (target l) \<in> set (map nid (take limit ns))) ls)\<rparr>)))"

text \<open>
  \<open>handleImport\<close>, the body of \<open>reader.onload\<close>, given the parsed document. The state
  setters called before an exception have taken effect when the \<open>catch\<close> runs; the second
  component is the error behind the alert "Import failed".
\<close>

definition handleImport :: "JsonDoc \<Rightarrow> AppState \<Rightarrow> AppState \<times> error option" where
  "handleImport json st =
     (let st1 = st\<lparr>graphData := Some json\<rparr>;
          st2 = st1\<lparr>shownStats := (case jmeta json of None \<Rightarrow> None | Some m \<Rightarrow> stats m)\<rparr>
      in case jnodes json of
           None \<Rightarrow> (st2, Some TypeError)
         | Some ns \<Rightarrow>
             (let initialCount = min 200 (length ns);
                  st3 = st2\<lparr>nodeCount := initialCount\<rparr>
              in case filterData json initialCount of
                   Inl e \<Rightarrow> (st3, Some e)
                 | Inr f \<Rightarrow> (st3\<lparr>filteredData := Some f\<rparr>, None)))"

text \<open>\<open>handleNodeClick\<close> and \<open>handleBackgroundClick\<close>, as far as the selection goes.\<close>

definition handleNodeClick :: "Node \<Rightarrow> AppState \<Rightarrow> AppState" where
  "handleNodeClick n st = st\<lparr>selectedNode := Some n, contextOpen := True\<rparr>"

definition handleBackgroundClick :: "AppState \<Rightarrow> AppState" where
  "handleBackgroundClick st = st\<lparr>selectedNode := None, contextOpen := False\<rparr>"

text \<open>\<open>handleDeleteNode\<close>: nothing happens without a selected node or without a graph.\<close>

definition handleDeleteNode :: "AppState \<Rightarrow> error + AppState" where
  "handleDeleteNode st =
     (case selectedNode st of
        None \<Rightarrow> Inr st
      | Some sel \<Rightarrow>
          (case graphData st of
             None \<Rightarrow> Inr st
           | Some g \<Rightarrow>
               (case jnodes g of
                  None \<Rightarrow> Inl TypeError
                | Some ns \<Rightarrow>
                    (case jlinks g of
                       None \<Rightarrow> Inl TypeError
                     | Some ls \<Rightarrow>
                         (let newNodes = filter (\<lambda>n. nid n \<noteq> nid sel) ns;
                              newLinks = filter (\<lambda>l. end_id (source l) \<noteq> nid sel \<and>
                                                      end_id (target l) \<noteq> nid sel) ls;
                              newGraphData = g\<lparr>jnodes := Some newNodes, jlinks := Some newLinks\<rparr>
                          in case filterData newGraphData (nodeCount st) of
                               Inl e \<Rightarrow> Inl e
                             | Inr f \<Rightarrow>
                                 Inr (st\<lparr>graphData := Some newGraphData, filteredData := Some f,
                                         selectedNode := None, contextOpen := False\<rparr>))))))"

datatype export_type = json | excel | sqlite

text \<open>
  \<open>handleExport(type)\<close>: the document that is downloaded, if one is. Only the JSON export
  writes a file; the other two show an alert.
\<close>

definition handleExport :: "export_type \<Rightarrow> AppState \<Rightarrow> JsonDoc option" where
  "handleExport ty st =
     (let dataToExport = (case graphData st of Some g \<Rightarrow> Some g | None \<Rightarrow> filteredData st)
      in if dataToExport = None \<and> ty \<noteq> excel then None
         else if ty = json then dataToExport
         else None)"

section \<open>Selection and highlight\<close>

text \<open>
  The opacity of every drawn node and link, in the order of the data. After the layout the
  endpoints of the drawn links are node objects, and the code reads \<open>l.source.id\<close>; on a
  raw id that property is \<open>undefined\<close>.
\<close>

record View =
  node_opacity :: "rat list"
  link_opacity :: "rat list"

fun obj_id :: "endpoint \<Rightarrow> jsval" where
  "obj_id (Ref n) = nid n"
| "obj_id (Raw v) = Undefined"

text \<open>\<open>resetHighlight\<close> of index.js, and the "clear previous highlights" of the Graph effect.\<close>

definition resetHighlight :: "Node list \<Rightarrow> Link list \<Rightarrow> View" where
  "resetHighlight ns ls = \<lparr>node_opacity = map (\<lambda>n. 1) ns, link_opacity = map (\<lambda>l. 1) ls\<rparr>"

text \<open>index.js, \<open>highlightNeighbors(d)\<close>: the set is filled from the connected links only.\<close>

definition neighborIds_js :: "Link list \<Rightarrow> Node \<Rightarrow> jsval set" where
  "neighborIds_js ls d =
     fold (\<lambda>l S. if obj_id (source l) = nid d \<or> obj_id (target l) = nid d
                  then insert (obj_id (target l)) (insert (obj_id (source l)) S)
                  else S) ls {}"

definition highlightNeighbors :: "Node list \<Rightarrow> Link list \<Rightarrow> Node \<Rightarrow> View" where
  "highlightNeighbors ns ls d =
     \<lparr>node_opacity = map (\<lambda>n. if nid n \<in> neighborIds_js ls d then 1 else 1 / 10) ns,
      link_opacity = map (\<lambda>l. if obj_id (source l) = nid d \<or> obj_id (target l) = nid d
                               then 1 else 1 / 10) ls\<rparr>"

text \<open>
  The Graph component's effect on \<open>selectedNode\<close>: the set starts with the selected id.
\<close>

definition neighborIds_react :: "Link list \<Rightarrow> Node \<Rightarrow> jsval set" where
  "neighborIds_react ls d =
     fold (\<lambda>l S. let S1 = (if obj_id (source l) = nid d then insert (obj_id (target l)) S else S)
                  in if obj_id (target l) = nid d then insert (obj_id (source l)) S1 else S1)
          ls {nid d}"

definition highlight_effect :: "Node list \<Rightarrow> Link list \<Rightarrow> Node option \<Rightarrow> View" where
  "highlight_effect ns ls sel =
     (case sel of
        None \<Rightarrow> resetHighlight ns ls
      | Some d \<Rightarrow>
          \<lparr>node_opacity = map (\<lambda>n. if nid n = nid d then 1
                                   else if nid n \<in> neighborIds_react ls d then 1 else 1 / 10) ns,
           link_opacity = map (\<lambda>l. if obj_id (source l) = nid d \<or> obj_id (target l) = nid d
                                    then 1 else 1 / 10) ls\<rparr>)"

section \<open>The layout pass\<close>

text \<open>
  The force simulation of d3 is not part of the repository, and it computes on doubles.
  What it computes is the parameter \<open>lib\<close>: the alpha a simulation starts with, the
  alpha after a step (from the target alpha and the alpha before), the position and
  velocity a node is given when the simulation takes it, and those it has after a step.
  What is modelled of the library is its frame: a step moves the nodes and changes
  nothing else of them, the links are resolved against the node ids when they are set,
  with the error "node not found" when an id is not there, and a timer steps the
  simulation on its own while it runs.
\<close>

type_synonym motion = "jsval \<times> jsval \<times> jsval \<times> jsval"

record 'a D3 =
  alpha_start :: 'a
  cool :: "rat \<Rightarrow> 'a \<Rightarrow> 'a"
  place :: "nat \<Rightarrow> Node \<Rightarrow> motion"
  move :: "'a \<Rightarrow> Node list \<Rightarrow> Link list \<Rightarrow> nat \<Rightarrow> Node \<Rightarrow> motion"

fun set_motion :: "Node \<Rightarrow> motion \<Rightarrow> Node" where
  "set_motion n (x, y, u, v) = n\<lparr>xpos := x, ypos := y, vx := u, vy := v\<rparr>"

record 'a Simulation =
  sim_nodes :: "Node list"
  sim_links :: "Link list"
  alpha :: 'a
  alphaTarget :: rat
  timer_running :: bool

text \<open>\<open>initializeNodes\<close>: every node of the array gets a position and a velocity.\<close>

definition initializeNodes :: "'a D3 \<Rightarrow> Node list \<Rightarrow> Node list" where
  "initializeNodes lib ns = map (\<lambda>(i, n). set_motion n (place lib i n)) (enumerate 0 ns)"

text \<open>
  \<open>d3.forceSimulation(nodes)\<close> starts its timer; \<open>stop\<close> and \<open>restart\<close> switch it.
\<close>

definition forceSimulation :: "'a D3 \<Rightarrow> Node list \<Rightarrow> 'a Simulation" where
  "forceSimulation lib ns =
     \<lparr>sim_nodes = initializeNodes lib ns, sim_links = [], alpha = alpha_start lib,
      alphaTarget = 0, timer_running = True\<rparr>"

definition sim_stop :: "'a Simulation \<Rightarrow> 'a Simulation" where
  "sim_stop s = s\<lparr>timer_running := False\<rparr>"

definition sim_restart :: "'a Simulation \<Rightarrow> 'a Simulation" where
  "sim_restart s = s\<lparr>timer_running := True\<rparr>"

text \<open>
  The link force with \<open>.id(d => d.id)\<close>, given its links: \<open>nodeById\<close> is a \<open>Map\<close> from the
  ids to the nodes, in which a later node with the same id replaces an earlier one, and an
  endpoint that is not an object is replaced by the node with that id, or the force throws
  "node not found". In the program the endpoint then is the node itself; here it is the
  value of the node at that moment, and a step is given the nodes next to the links.
\<close>

definition find_node :: "Node list \<Rightarrow> jsval \<Rightarrow> Node option" where
  "find_node ns v = List.find (\<lambda>n. nid n = v) (rev ns)"

fun resolve_end :: "Node list \<Rightarrow> endpoint \<Rightarrow> error + endpoint" where
  "resolve_end ns (Ref n) = Inr (Ref n)"
| "resolve_end ns (Raw v) =
     (case find_node ns v of None \<Rightarrow> Inl NodeNotFound | Some n \<Rightarrow> Inr (Ref n))"

text \<open>
  \<open>initialize\<close> of the link force goes through its links in order and writes the nodes into
  them. When it throws, the links before the failing one stay resolved, the failing one
  keeps the endpoint that was not found, and the force keeps the links: the result is the
  links as they are afterwards, and the error if there is one.
\<close>

fun resolve_links :: "Node list \<Rightarrow> Link list \<Rightarrow> Link list \<times> error option" where
  "resolve_links ns [] = ([], None)"
| "resolve_links ns (l # ls) =
     (case resolve_end ns (source l) of
        Inl e \<Rightarrow> (l # ls, Some e)
      | Inr s \<Rightarrow>
          (case resolve_end ns (target l) of
             Inl e \<Rightarrow> (l\<lparr>source := s\<rparr> # ls, Some e)
           | Inr t \<Rightarrow>
               (case resolve_links ns ls of
                  (rs, err) \<Rightarrow> (l\<lparr>source := s, target := t\<rparr> # rs, err))))"

definition initialize_links :: "'a Simulation \<Rightarrow> 'a Simulation \<times> error option" where
  "initialize_links s =
     (case resolve_links (sim_nodes s) (sim_links s) of
        (rl, err) \<Rightarrow> (s\<lparr>sim_links := rl\<rparr>, err))"

text \<open>
  \<open>simulation.force("link").links(links)\<close> sets the links and initializes the force;
  \<open>simulation.nodes(nodes)\<close> sets the nodes, gives them a position, and initializes the
  force again, on the links it holds.
\<close>

definition force_links :: "'a Simulation \<Rightarrow> Link list \<Rightarrow> 'a Simulation \<times> error option" where
  "force_links s ls = initialize_links (s\<lparr>sim_links := ls\<rparr>)"

definition simulation_nodes ::
  "'a D3 \<Rightarrow> 'a Simulation \<Rightarrow> Node list \<Rightarrow> 'a Simulation \<times> error option" where
  "simulation_nodes lib s ns = initialize_links (s\<lparr>sim_nodes := initializeNodes lib ns\<rparr>)"

text \<open>\<open>simulation.tick()\<close>: one step, by hand; the timer is not touched.\<close>

definition sim_tick :: "'a D3 \<Rightarrow> 'a Simulation \<Rightarrow> 'a Simulation" where
  "sim_tick lib s =
     (let a = cool lib (alphaTarget s) (alpha s)
      in s\<lparr>alpha := a,
            sim_nodes := map (\<lambda>(i, n). set_motion n (move lib a (sim_nodes s) (sim_links s) i n))
                           (enumerate 0 (sim_nodes s))\<rparr>)"

text \<open>\<open>for (let i = 0; i < 300; ++i) simulation.tick();\<close> from the value \<open>i\<close> on.\<close>

function run_ticks :: "'a D3 \<Rightarrow> nat \<Rightarrow> 'a Simulation \<Rightarrow> 'a Simulation" where
  "run_ticks lib i s = (if i < 300 then run_ticks lib (i + 1) (sim_tick lib s) else s)"
  by pat_completeness auto
termination
  by (relation "measure (\<lambda>(lib, i, s). 300 - i)") auto

declare run_ticks.simps [simp del]

text \<open>
  The layout of the Graph component: the simulation is made from the nodes, given the
  link force with the links, stopped, and stepped. The simulation is local to the effect,
  so an exception leaves nothing of it.
\<close>

definition graph_layout :: "'a D3 \<Rightarrow> Node list \<Rightarrow> Link list \<Rightarrow> error + 'a Simulation" where
  "graph_layout lib ns ls =
     (case force_links (forceSimulation lib ns) ls of
        (s, Some e) \<Rightarrow> Inl e
      | (s, None) \<Rightarrow> Inr (run_ticks lib 0 (sim_stop s)))"

text \<open>
  The layout of \<open>renderGraph\<close> in index.js, on the one simulation of the page, which was
  made without nodes and stopped. The nodes are copied with their size, which is
  \<open>Math.sqrt(d.weight) * 50 + 5\<close> and the parameter \<open>size_of\<close>, and the links with their
  value; then the simulation is given the nodes, the links and alpha 1, and stepped. The
  result is the simulation of the page afterwards, and the error if a statement threw.
\<close>

definition page_simulation :: "'a D3 \<Rightarrow> 'a Simulation" where
  "page_simulation lib = sim_stop (forceSimulation lib [])"

definition renderGraph_layout ::
  "'a D3 \<Rightarrow> (jsval \<Rightarrow> jsval) \<Rightarrow> 'a Simulation \<Rightarrow> GraphData \<Rightarrow> 'a Simulation \<times> error option" where
  "renderGraph_layout lib size_of s d =
     (let ns = map (\<lambda>n. n\<lparr>nsize := size_of (weight n)\<rparr>) (nodes d);
          ls = map (\<lambda>l. l\<lparr>lvalue := lweight l\<rparr>) (links d)
      in case simulation_nodes lib s ns of
           (s1, Some e) \<Rightarrow> (s1, Some e)
         | (s1, None) \<Rightarrow>
             (case force_links s1 ls of
                (s2, Some e) \<Rightarrow> (s2, Some e)
              | (s2, None) \<Rightarrow> (run_ticks lib 0 (s2\<lparr>alpha := alpha_start lib\<rparr>), None)))"

text \<open>
  The drag handlers. An event carries \<open>event.active\<close> being non-zero, the place of the
  dragged node among the nodes, and the pointer. In the Graph component the start of a drag
  sets the target alpha and restarts the simulation, and the node is pinned while it is
  dragged; \<open>null\<close>, which ends the pin, is written \<open>Undefined\<close>. In index.js no handler
  touches the simulation, and the node is moved.
\<close>

datatype drag_event = DragStart bool nat | Dragged nat jsval jsval | DragEnd bool nat

definition update_node :: "nat \<Rightarrow> (Node \<Rightarrow> Node) \<Rightarrow> Node list \<Rightarrow> Node list" where
  "update_node i f ns = (if i < length ns then ns[i := f (ns ! i)] else ns)"

fun graph_drag :: "drag_event \<Rightarrow> 'a Simulation \<Rightarrow> 'a Simulation" where
  "graph_drag (DragStart active i) s =
     (let s1 = (if \<not> active then sim_restart (s\<lparr>alphaTarget := 3 / 10\<rparr>) else s)
      in s1\<lparr>sim_nodes := update_node i (\<lambda>d. d\<lparr>fx := xpos d, fy := ypos d\<rparr>) (sim_nodes s1)\<rparr>)"
| "graph_drag (Dragged i x y) s =
     s\<lparr>sim_nodes := update_node i (\<lambda>d. d\<lparr>fx := x, fy := y\<rparr>) (sim_nodes s)\<rparr>"
| "graph_drag (DragEnd active i) s =
     (let s1 = (if \<not> active then s\<lparr>alphaTarget := 0\<rparr> else s)
      in s1\<lparr>sim_nodes := update_node i (\<lambda>d. d\<lparr>fx := Undefined, fy := Undefined\<rparr>) (sim_nodes s1)\<rparr>)"

fun page_drag :: "drag_event \<Rightarrow> 'a Simulation \<Rightarrow> 'a Simulation" where
  "page_drag (DragStart active i) s = s"
| "page_drag (Dragged i x y) s =
     s\<lparr>sim_nodes := update_node i (\<lambda>d. d\<lparr>xpos := x, ypos := y\<rparr>) (sim_nodes s)\<rparr>"
| "page_drag (DragEnd active i) s = s"

section \<open>The two table schemas of one graph\<close>

text \<open>
  The node and link tables that hold a graph in the Legacy schema (the id column holds the
  label) and in the Current schema (the id column holds the surrogate, 1-based in the order
  of the nodes, and the label column holds the label; a link row holds the surrogates of
  its endpoints). The surrogates are those \<open>nodeMap\<close> assigns, and a link with an endpoint
  that has no surrogate has no row. These definitions follow the schema table of the
  specification; the repository has no encoder for three of the four.
\<close>

definition is_str :: "jsval \<Rightarrow> bool" where
  "is_str v = (case v of Str s \<Rightarrow> True | _ \<Rightarrow> False)"

definition legacy_node_cells :: "Node \<Rightarrow> row" where
  "legacy_node_cells n = [(''id'', nid n), (''weight'', weight n)]"

definition legacy_link_cells :: "Link \<Rightarrow> row" where
  "legacy_link_cells l =
     [(''source'', end_id (source l)), (''target'', end_id (target l)), (''weight'', lweight l)]"

fun current_node_cells :: "nat \<Rightarrow> Node list \<Rightarrow> row list" where
  "current_node_cells i [] = []"
| "current_node_cells i (n # ns) =
     [(''id'', Num (of_nat (Suc i))), (''label'', nid n), (''weight'', weight n)]
       # current_node_cells (Suc i) ns"

definition has_surrogates :: "jsmap \<Rightarrow> Link \<Rightarrow> bool" where
  "has_surrogates nm l = (nm (end_id (source l)) \<noteq> None \<and> nm (end_id (target l)) \<noteq> None)"

definition current_link_cells :: "jsmap \<Rightarrow> Link \<Rightarrow> row" where
  "current_link_cells nm l =
     [(''source'', map_get nm (end_id (source l))), (''target'', map_get nm (end_id (target l))),
      (''weight'', lweight l)]"

definition legacy_workbook :: "row list option \<Rightarrow> GraphData \<Rightarrow> Workbook" where
  "legacy_workbook ms g =
     \<lparr>Nodes_sheet = Some (map (written \<circ> legacy_node_cells) (nodes g)),
      Links_sheet = Some (map (written \<circ> legacy_link_cells) (links g)),
      Meta_sheet = ms\<rparr>"

definition current_workbook :: "row list option \<Rightarrow> GraphData \<Rightarrow> Workbook" where
  "current_workbook ms g =
     \<lparr>Nodes_sheet = Some (map written (current_node_cells 0 (nodes g))),
      Links_sheet = Some (map (written \<circ> current_link_cells (nodeMap_from 0 (nodes g) Map.empty))
                            (filter (has_surrogates (nodeMap_from 0 (nodes g) Map.empty)) (links g))),
      Meta_sheet = ms\<rparr>"

definition legacy_db :: "Table option \<Rightarrow> GraphData \<Rightarrow> Database" where
  "legacy_db mt g =
     \<lparr>nodes_table = Some \<lparr>columns = [''id'', ''weight''],
                           tvalues = map (map snd \<circ> legacy_node_cells) (nodes g)\<rparr>,
      links_table = Some \<lparr>columns = [''source'', ''target'', ''weight''],
                           tvalues = map (map snd \<circ> legacy_link_cells) (links g)\<rparr>,
      meta_table = mt\<rparr>"

definition current_db :: "Table option \<Rightarrow> GraphData \<Rightarrow> Database" where
  "current_db mt g =
     \<lparr>nodes_table = Some \<lparr>columns = [''id'', ''label'', ''weight''],
                           tvalues = map (map snd) (current_node_cells 0 (nodes g))\<rparr>,
      links_table = Some \<lparr>columns = [''source'', ''target'', ''weight''],
                           tvalues = map (map snd \<circ> current_link_cells (nodeMap_from 0 (nodes g) Map.empty))
                                       (filter (has_surrogates (nodeMap_from 0 (nodes g) Map.empty)) (links g))\<rparr>,
      meta_table = mt\<rparr>"

text \<open>The map from the ids of a node list to themselves, the map a Legacy table gives.\<close>

definition id_map :: "Node list \<Rightarrow> jsmap" where
  "id_map ns = (\<lambda>v. if v \<in> set (map nid ns) then Some v else None)"

text \<open>
  The links a tabular decode returns for the links \<open>ls\<close> of a graph with the nodes \<open>ns\<close>:
  those with both endpoints among the node ids and truthy, with raw endpoints and the
  weight \<open>w l\<close>.
\<close>

definition kept_links :: "(Link \<Rightarrow> jsval) \<Rightarrow> Node list \<Rightarrow> Link list \<Rightarrow> Link list" where
  "kept_links w ns ls =
     map (\<lambda>l. mk_link (end_id (source l)) (end_id (target l)) (w l))
       (filter (\<lambda>l. end_id (source l) \<in> set (map nid ns) \<and> truthy (end_id (source l)) \<and>
                     end_id (target l) \<in> set (map nid ns) \<and> truthy (end_id (target l))) ls)"

text \<open>
  The graph of the specification's scenario: the nodes A, B and C, the link A-B of weight
  1 and the link B-C of weight 2.
\<close>

definition example_node :: "string \<Rightarrow> rat \<Rightarrow> Node" where
  "example_node s w = \<lparr>nid = Str s, weight = Num w, group = Num 1, groupName = Undefined,
     xpos = Undefined, ypos = Undefined, vx = Undefined, vy = Undefined,
     fx = Undefined, fy = Undefined, nsize = Undefined\<rparr>"

definition example_graph :: GraphData where
  "example_graph =
     \<lparr>nodes = [example_node ''A'' (1/2), example_node ''B'' (3/10), example_node ''C'' (1/5)],
      links = [\<lparr>source = Raw (Str ''A''), target = Raw (Str ''B''), lweight = Num 1, lvalue = Undefined\<rparr>,
               \<lparr>source = Raw (Str ''B''), target = Raw (Str ''C''), lweight = Num 2, lvalue = Undefined\<rparr>],
      meta = None, group_names = None\<rparr>"

section \<open>The Plain format as JSON\<close>

text \<open>
  A JSON value, without \<open>null\<close> and the booleans. \<open>JSON.stringify\<close> writes the properties
  of an object that are defined, and \<open>JSON.parse\<close> gives the value back; the text between
  the two is not modelled.
\<close>

datatype json = JNum rat | JStr string | JArr "json list" | JObj "(string \<times> json) list"


















section \<open>Encoding and decoding again\<close>




text \<open>A meta object every value of which the database export can bind.\<close>

definition bindable_meta :: "Meta option \<Rightarrow> bool" where
  "bindable_meta mo =
     (case mo of
        None \<Rightarrow> True
      | Some m \<Rightarrow> mfile m \<noteq> Undefined \<and> duration m \<noteq> Undefined \<and>
          (case stats m of
             None \<Rightarrow> True
           | Some st \<Rightarrow> snodes st \<noteq> Undefined \<and> slinks st \<noteq> Undefined))"

text \<open>
  Parameters for the examples. \<open>decimal_round2\<close> is the nearest multiple of 1/100 of an
  exact value, a tie going to the larger magnitude. It is not the language's \<open>toFixed\<close>,
  which works on doubles; it stands for \<open>fix2\<close> on the weights of the examples (0.5,
  0.3, 0.2, 1 and 2), which it and the language both leave as they are. The text of a
  number and the conversions of SQLite are never called in the examples, whose ids are
  strings, whose weights are numbers, and which have no meta object.
\<close>

definition decimal_round2 :: "rat \<Rightarrow> rat" where
  "decimal_round2 r =
     (if r < 0 then - (of_int \<lfloor>(- r) * 100 + 1 / 2\<rfloor> / 100)
      else of_int \<lfloor>r * 100 + 1 / 2\<rfloor> / 100)"

definition digits_text :: "rat \<Rightarrow> string" where
  "digits_text r = ''0''"

definition unread_sqlite :: Sqlite where
  "unread_sqlite = \<lparr>sql_text = digits_text, sql_num = (\<lambda>s. None)\<rparr>"

text \<open>A graph with one node and a link to an id that is no node.\<close>

definition dangling_graph :: GraphData where
  "dangling_graph =
     \<lparr>nodes = [example_node ''A'' (1/2)],
      links = [\<lparr>source = Raw (Str ''A''), target = Raw (Str ''Z''), lweight = Num 1, lvalue = Undefined\<rparr>],
      meta = None, group_names = None\<rparr>"

text \<open>A \<open>parseInt\<close> for files without a Meta table, where it is never called on a number.\<close>

definition nan_parseInt :: "jsval \<Rightarrow> rat option" where
  "nan_parseInt v = None"

text \<open>
  A node object with no property besides \<open>id\<close> and \<open>weight\<close>: no group, group name,
  position, velocity, pinned position or size.
\<close>

definition no_other_property :: "Node \<Rightarrow> bool" where
  "no_other_property n =
     (group n = Undefined \<and> groupName n = Undefined \<and> xpos n = Undefined \<and> ypos n = Undefined \<and>
      vx n = Undefined \<and> vy n = Undefined \<and> fx n = Undefined \<and> fy n = Undefined \<and>
      nsize n = Undefined)"

text \<open>
  A graph with everything erased that the tabular formats are said not to hold: of every
  node, also of a node that is the endpoint of a link, all but id and weight; of every link
  the value alias; and the group names.
\<close>

definition forget_node :: "Node \<Rightarrow> Node" where
  "forget_node n =
     n\<lparr>group := Undefined, groupName := Undefined, xpos := Undefined, ypos := Undefined,
       vx := Undefined, vy := Undefined, fx := Undefined, fy := Undefined, nsize := Undefined\<rparr>"

fun forget_end :: "endpoint \<Rightarrow> endpoint" where
  "forget_end (Raw v) = Raw v"
| "forget_end (Ref n) = Ref (forget_node n)"

definition forget_link :: "Link \<Rightarrow> Link" where
  "forget_link l =
     \<lparr>source = forget_end (source l), target = forget_end (target l), lweight = lweight l,
      lvalue = Undefined\<rparr>"

definition forget :: "GraphData \<Rightarrow> GraphData" where
  "forget g =
     \<lparr>nodes = map forget_node (nodes g), links = map forget_link (links g), meta = meta g,
      group_names = None\<rparr>"

text \<open>
  An application that shows the example graph, and an imported document with links and
  without nodes.
\<close>

definition live_state :: AppState where
  "live_state =
     \<lparr>graphData = Some (encode_plain example_graph),
      filteredData = Some (encode_plain example_graph),
      nodeCount = 3, selectedNode = None, contextOpen = False, shownStats = None\<rparr>"

definition doc_without_nodes :: JsonDoc where
  "doc_without_nodes = \<lparr>jnodes = None, jlinks = Some [], jmeta = None, jgroup_names = None\<rparr>"

text \<open>
  The links the layout can resolve against the node ids \<open>ids\<close>, and links that are
  resolved: every endpoint is a node object.
\<close>

definition links_resolvable :: "jsval list \<Rightarrow> Link list \<Rightarrow> bool" where
  "links_resolvable ids ls = list_all (\<lambda>l. resolvable ids (source l) \<and> resolvable ids (target l)) ls"

fun is_object :: "endpoint \<Rightarrow> bool" where
  "is_object (Ref n) = True"
| "is_object (Raw v) = False"

definition links_resolved :: "Link list \<Rightarrow> bool" where
  "links_resolved ls = list_all (\<lambda>l. is_object (source l) \<and> is_object (target l)) ls"

text \<open>
  A library for the examples: alpha counts the steps, the nodes are placed in a row at
  rest, and a step moves every node one unit to the right.
\<close>

definition drift :: "jsval \<Rightarrow> jsval" where
  "drift v = (case v of Num x \<Rightarrow> Num (x + 1) | _ \<Rightarrow> v)"

definition counting_d3 :: "nat D3" where
  "counting_d3 =
     \<lparr>alpha_start = 0, cool = (\<lambda>t a. Suc a),
      place = (\<lambda>i n. (Num (of_nat i), Num 0, Num 0, Num 0)),
      move = (\<lambda>a ns ls i n. (drift (xpos n), ypos n, vx n, vy n))\<rparr>"

text \<open>The example graph as the layout leaves it for drawing: every endpoint is a node.\<close>

definition drawn_links :: "Link list" where
  "drawn_links =
     [\<lparr>source = Ref (example_node ''A'' (1/2)), target = Ref (example_node ''B'' (3/10)),
       lweight = Num 1, lvalue = Undefined\<rparr>,
      \<lparr>source = Ref (example_node ''B'' (3/10)), target = Ref (example_node ''C'' (1/5)),
       lweight = Num 2, lvalue = Undefined\<rparr>]"

section \<open>Properties of the tabular decoders\<close>

lemma wb_node_step_pair:
  "wb_node_step b r (ns, m) =
     (if b
      then (ns @ [mk_node (getp r ''label'') (getp r ''weight'')], m(getp r ''id'' \<mapsto> getp r ''label''))
      else (ns @ [mk_node (getp r ''id'') (getp r ''weight'')], m(getp r ''id'' \<mapsto> getp r ''id'')))"
  by (simp add: wb_node_step_def)

lemma map_add_upd_front: "m(k \<mapsto> v) ++ map_of xs = m ++ map_of (xs @ [(k, v)])"
  by (rule ext) (simp add: map_add_def split: option.splits)

lemma wb_fold_nodes_new:
  "fold (wb_node_step True) rows (ns, m) =
     (ns @ map (\<lambda>q. mk_node (getp q ''label'') (getp q ''weight'')) rows,
      m ++ map_of (rev (map (\<lambda>q. (getp q ''id'', getp q ''label'')) rows)))"
proof (induction rows arbitrary: ns m)
  case Nil
  then show ?case by simp
next
  case (Cons r rs)
  show ?case
    by (simp only: fold_simps wb_node_step_pair if_True if_False Cons.IH map_add_upd_front) simp
qed

lemma wb_fold_nodes_old:
  "fold (wb_node_step False) rows (ns, m) =
     (ns @ map (\<lambda>q. mk_node (getp q ''id'') (getp q ''weight'')) rows,
      m ++ map_of (rev (map (\<lambda>q. (getp q ''id'', getp q ''id'')) rows)))"
proof (induction rows arbitrary: ns m)
  case Nil
  then show ?case by simp
next
  case (Cons r rs)
  show ?case
    by (simp only: fold_simps wb_node_step_pair if_True if_False Cons.IH map_add_upd_front) simp
qed

text \<open>
  C9. The workbook decoder looks for the key \<open>label\<close> in the first node row only. When the
  first row has it, every row is read as a Current-schema row (the node's id is the label
  cell, and the map sends the id cell to the label cell); when the first row lacks it, every
  row is read as a Legacy row (the node's id is the id cell, and the map sends it to itself),
  whatever the later rows hold. In the map a later row overwrites an earlier one with the
  same id cell.
\<close>

theorem workbook_schema_from_first_row:
  "wb_read_nodes (r # rs) =
     (if has_key r ''label''
      then (map (\<lambda>q. mk_node (getp q ''label'') (getp q ''weight'')) (r # rs),
            map_of (rev (map (\<lambda>q. (getp q ''id'', getp q ''label'')) (r # rs))))
      else (map (\<lambda>q. mk_node (getp q ''id'') (getp q ''weight'')) (r # rs),
            map_of (rev (map (\<lambda>q. (getp q ''id'', getp q ''id'')) (r # rs)))))"
proof (cases "has_key r ''label''")
  case True
  then have "isNewSchema (r # rs)" by (simp add: isNewSchema_def)
  then show ?thesis using True
    by (simp only: wb_read_nodes_def wb_fold_nodes_new) simp
next
  case False
  then have "\<not> isNewSchema (r # rs)" by (simp add: isNewSchema_def)
  then show ?thesis using False
    by (simp only: wb_read_nodes_def wb_fold_nodes_old) simp
qed

text \<open>
  A Current-schema table whose first row has an empty label cell: both rows are read as
  Legacy rows, so the second node's id is its surrogate 2 and not its label.
\<close>

theorem workbook_schema_from_first_row_witness:
  "fst (wb_read_nodes
     [[(''id'', Num 1), (''weight'', Num (1/2))],
      [(''id'', Num 2), (''label'', Str ''B''), (''weight'', Num (3/10))]])
   = [mk_node (Num 1) (Num (1/2)), mk_node (Num 2) (Num (3/10))]"
  using workbook_schema_from_first_row
    [of "[(''id'', Num 1), (''weight'', Num (1/2))]"
        "[[(''id'', Num 2), (''label'', Str ''B''), (''weight'', Num (3/10))]]"]
  by (simp add: has_key_def getp_def)

lemma wb_fold_links:
  "fold (wb_link_step m) rows acc =
     acc @ map (\<lambda>r. mk_link (map_get m (getp r ''source'')) (map_get m (getp r ''target'')) (getp r ''weight''))
            (filter (\<lambda>r. truthy (map_get m (getp r ''source'')) \<and> truthy (map_get m (getp r ''target''))) rows)"
proof (induction rows arbitrary: acc)
  case Nil
  then show ?case by simp
next
  case (Cons r rs)
  have step: "wb_link_step m r acc =
      (if truthy (map_get m (getp r ''source'')) \<and> truthy (map_get m (getp r ''target''))
       then acc @ [mk_link (map_get m (getp r ''source'')) (map_get m (getp r ''target'')) (getp r ''weight'')]
       else acc)"
    by (simp add: wb_link_step_def Let_def)
  show ?case
    by (simp only: fold_simps step Cons.IH) simp
qed

lemma wb_read_links_eq:
  "wb_read_links m rows =
     map (\<lambda>r. mk_link (map_get m (getp r ''source'')) (map_get m (getp r ''target'')) (getp r ''weight''))
       (filter (\<lambda>r. truthy (map_get m (getp r ''source'')) \<and> truthy (map_get m (getp r ''target''))) rows)"
  by (simp add: wb_read_links_def wb_fold_links)

lemma map_of_written:
  "distinct (map fst r) \<Longrightarrow>
   map_of (written r) k = (case map_of r k of Some Undefined \<Rightarrow> None | x \<Rightarrow> x)"
proof (induction r)
  case Nil
  then show ?case by (simp add: written_def)
next
  case (Cons a r)
  then have "map_of r (fst a) = None"
    by (cases a) (simp add: map_of_eq_None_iff)
  with Cons show ?case
    by (cases a) (auto simp: written_def split: option.splits jsval.splits)
qed

lemma getp_written: "distinct (map fst r) \<Longrightarrow> getp (written r) k = getp r k"
  by (simp add: getp_def map_of_written split: option.splits jsval.splits)

lemma has_key_written: "has_key (written r) k = (\<exists>v. (k, v) \<in> set r \<and> v \<noteq> Undefined)"
  by (force simp: has_key_def written_def)

lemma legacy_node_getp:
  "getp (written (legacy_node_cells n)) ''id'' = nid n"
  "getp (written (legacy_node_cells n)) ''weight'' = weight n"
  by (simp_all add: getp_written legacy_node_cells_def) (simp_all add: getp_def)

lemma legacy_link_getp:
  "getp (written (legacy_link_cells l)) ''source'' = end_id (source l)"
  "getp (written (legacy_link_cells l)) ''target'' = end_id (target l)"
  "getp (written (legacy_link_cells l)) ''weight'' = lweight l"
  by (simp_all add: getp_written legacy_link_cells_def) (simp_all add: getp_def)

lemma current_link_getp:
  "getp (written (current_link_cells nm l)) ''source'' = map_get nm (end_id (source l))"
  "getp (written (current_link_cells nm l)) ''target'' = map_get nm (end_id (target l))"
  "getp (written (current_link_cells nm l)) ''weight'' = lweight l"
  by (simp_all add: getp_written current_link_cells_def) (simp_all add: getp_def)

lemma map_of_rev_diag:
  "map_of (rev (map (\<lambda>n. (f n, f n)) ns)) = (\<lambda>v. if v \<in> set (map f ns) then Some v else None)"
proof (rule ext)
  fix v
  show "map_of (rev (map (\<lambda>n. (f n, f n)) ns)) v = (if v \<in> set (map f ns) then Some v else None)"
  proof (induction ns)
    case Nil
    then show ?case by simp
  next
    case (Cons a ns)
    then show ?case by (auto simp: map_add_def split: option.splits)
  qed
qed

lemma map_get_id_map: "map_get (id_map ns) v = (if v \<in> set (map nid ns) then v else Undefined)"
  by (simp add: map_get_def id_map_def)

lemma truthy_id_map:
  "truthy (map_get (id_map ns) v) = (v \<in> set (map nid ns) \<and> truthy v)"
  by (simp add: map_get_id_map)

lemma wb_legacy_nodes:
  "wb_read_nodes (map (written \<circ> legacy_node_cells) ns) =
     (map (\<lambda>n. mk_node (nid n) (weight n)) ns, id_map ns)"
proof -
  have "\<not> isNewSchema (map (written \<circ> legacy_node_cells) ns)"
    by (cases ns) (auto simp: isNewSchema_def has_key_written legacy_node_cells_def)
  then have "wb_read_nodes (map (written \<circ> legacy_node_cells) ns) =
      fold (wb_node_step False) (map (written \<circ> legacy_node_cells) ns) ([], Map.empty)"
    by (simp add: wb_read_nodes_def)
  also have "\<dots> = (map (\<lambda>n. mk_node (nid n) (weight n)) ns,
      map_of (rev (map (\<lambda>n. (nid n, nid n)) ns)))"
    by (simp add: wb_fold_nodes_old comp_def legacy_node_getp)
  finally show ?thesis
    by (simp add: map_of_rev_diag id_map_def)
qed

lemma map_filter_cong:
  "(\<And>x. x \<in> set xs \<Longrightarrow> P x = Q x) \<Longrightarrow> (\<And>x. x \<in> set xs \<Longrightarrow> Q x \<Longrightarrow> f x = g x) \<Longrightarrow>
   map f (filter P xs) = map g (filter Q xs)"
  by (induction xs) auto

lemma wb_legacy_links:
  "wb_read_links (id_map ns) (map (written \<circ> legacy_link_cells) ls) = kept_links lweight ns ls"
proof -
  have "wb_read_links (id_map ns) (map (written \<circ> legacy_link_cells) ls) =
      map (\<lambda>l. mk_link (map_get (id_map ns) (end_id (source l)))
                  (map_get (id_map ns) (end_id (target l))) (lweight l))
        (filter (\<lambda>l. truthy (map_get (id_map ns) (end_id (source l))) \<and>
                      truthy (map_get (id_map ns) (end_id (target l)))) ls)"
    by (simp add: wb_read_links_eq filter_map comp_def legacy_link_getp)
  also have "\<dots> = kept_links lweight ns ls"
    unfolding kept_links_def
    by (rule map_filter_cong) (auto simp: map_get_id_map)
  finally show ?thesis .
qed


text \<open>The map a Current-schema node table gives: from the surrogate to the label.\<close>

lemma current_pairs:
  "map (\<lambda>q. (getp q ''id'', getp q ''label'')) (map written (current_node_cells i ns)) =
   map (\<lambda>q. (getp q ''id'', getp q ''label'')) (current_node_cells i ns)"
  by (induction ns arbitrary: i) (simp_all add: getp_written)

lemma current_nodes:
  "map (\<lambda>q. mk_node (getp q ''label'') (getp q ''weight'')) (map written (current_node_cells i ns)) =
   map (\<lambda>n. mk_node (nid n) (weight n)) ns"
  by (induction ns arbitrary: i) (simp_all add: getp_written, simp_all add: getp_def)

lemma current_map_keys:
  "map_of (rev (map (\<lambda>q. (getp q ''id'', getp q ''label'')) (current_node_cells i ns))) k = Some v \<Longrightarrow>
   \<exists>j. k = Num (of_nat j) \<and> i < j"
proof (induction ns arbitrary: i v)
  case Nil
  then show ?case by simp
next
  case (Cons n ns)
  let ?M = "map_of (rev (map (\<lambda>q. (getp q ''id'', getp q ''label'')) (current_node_cells (Suc i) ns)))"
  have "map_of (rev (map (\<lambda>q. (getp q ''id'', getp q ''label'')) (current_node_cells i (n # ns)))) k =
      (case ?M k of Some x \<Rightarrow> Some x | None \<Rightarrow> if k = Num (of_nat (Suc i)) then Some (nid n) else None)"
    by (simp add: map_add_def getp_def split: option.splits)
  with Cons.prems
  have "(\<exists>x. ?M k = Some x) \<or> k = Num (of_nat (Suc i))"
    by (auto split: option.splits if_splits)
  then show ?case
  proof
    assume "\<exists>x. ?M k = Some x"
    then obtain x where "?M k = Some x" ..
    from Cons.IH[OF this] obtain j where "k = Num (of_nat j)" "Suc i < j" by blast
    then show ?thesis by (intro exI[of _ j]) simp
  next
    assume "k = Num (of_nat (Suc i))"
    then show ?thesis by (intro exI[of _ "Suc i"]) simp
  qed
qed

lemma nodeMap_from_other: "v \<notin> set (map nid ns) \<Longrightarrow> nodeMap_from i ns m v = m v"
  by (induction ns arbitrary: i m) auto

lemma nodeMap_from_dom: "v \<in> set (map nid ns) \<Longrightarrow> \<exists>j. nodeMap_from i ns m v = Some (Num (of_nat j)) \<and> i < j"
proof (induction ns arbitrary: i m)
  case Nil
  then show ?case by simp
next
  case (Cons n ns)
  show ?case
  proof (cases "v \<in> set (map nid ns)")
    case True
    from Cons.IH[OF True, of "Suc i" "m(nid n \<mapsto> Num (of_nat (Suc i)))"] obtain j
      where "nodeMap_from (Suc i) ns (m(nid n \<mapsto> Num (of_nat (Suc i)))) v = Some (Num (of_nat j))"
        and "Suc i < j" by blast
    then show ?thesis
      by (intro exI[of _ j]) (simp del: of_nat_Suc)
  next
    case False
    with Cons.prems have "v = nid n" by simp
    with False show ?thesis
      by (intro exI[of _ "Suc i"]) (simp add: nodeMap_from_other del: of_nat_Suc)
  qed
qed

lemma nodeMap_from_back:
  "v \<in> set (map nid ns) \<Longrightarrow> nodeMap_from i ns m v = Some k \<Longrightarrow>
   map_of (rev (map (\<lambda>q. (getp q ''id'', getp q ''label'')) (current_node_cells i ns))) k = Some v"
proof (induction ns arbitrary: i m)
  case Nil
  then show ?case by simp
next
  case (Cons n ns)
  let ?M = "map_of (rev (map (\<lambda>q. (getp q ''id'', getp q ''label'')) (current_node_cells (Suc i) ns)))"
  have split: "map_of (rev (map (\<lambda>q. (getp q ''id'', getp q ''label'')) (current_node_cells i (n # ns)))) k =
      (case ?M k of Some x \<Rightarrow> Some x | None \<Rightarrow> if k = Num (of_nat (Suc i)) then Some (nid n) else None)"
    by (simp add: map_add_def getp_def split: option.splits)
  show ?case
  proof (cases "v \<in> set (map nid ns)")
    case True
    from Cons.prems(2) have "nodeMap_from (Suc i) ns (m(nid n \<mapsto> Num (of_nat (Suc i)))) v = Some k"
      by simp
    from Cons.IH[OF True this] show ?thesis
      by (simp only: split) simp
  next
    case False
    with Cons.prems have v: "v = nid n" by simp
    from Cons.prems(2) False have k: "k = Num (of_nat (Suc i))"
      by (simp add: nodeMap_from_other v)
    have "?M k = None"
    proof (cases "?M k")
      case None
      then show ?thesis .
    next
      case (Some x)
      from current_map_keys[OF Some] k show ?thesis by auto
    qed
    then show ?thesis
      by (simp only: split) (simp add: k v)
  qed
qed

lemma surrogate_back:
  assumes "v \<in> nid ` set ns"
  shows "map_get (map_of (rev (map (\<lambda>q. (getp q ''id'', getp q ''label'')) (current_node_cells 0 ns))))
           (map_get (nodeMap_from 0 ns Map.empty) v) = v"
proof -
  from assms have v: "v \<in> set (map nid ns)" by simp
  from nodeMap_from_dom[OF v, of 0 Map.empty] obtain j
    where j: "nodeMap_from 0 ns Map.empty v = Some (Num (of_nat j))" by blast
  from nodeMap_from_back[OF v j] show ?thesis
    by (simp add: map_get_def j)
qed

lemma nodeMap_defined: "(nodeMap_from 0 ns Map.empty v = None) = (v \<notin> nid ` set ns)"
  using nodeMap_from_dom[of v ns 0 Map.empty] nodeMap_from_other[of v ns 0 Map.empty]
  by (cases "v \<in> set (map nid ns)") auto

lemma current_links_decoded:
  assumes rows: "\<And>l::Link. getp (f l) ''source'' = map_get (nodeMap_from 0 ns Map.empty) (end_id (source l))"
                "\<And>l::Link. getp (f l) ''target'' = map_get (nodeMap_from 0 ns Map.empty) (end_id (target l))"
                "\<And>l::Link. getp (f l) ''weight'' = lweight l"
  shows "wb_read_links (map_of (rev (map (\<lambda>q. (getp q ''id'', getp q ''label'')) (current_node_cells 0 ns))))
           (map f (filter (has_surrogates (nodeMap_from 0 ns Map.empty)) ls))
         = kept_links lweight ns ls"
proof -
  let ?nm = "nodeMap_from 0 ns Map.empty"
  let ?M = "map_of (rev (map (\<lambda>q. (getp q ''id'', getp q ''label'')) (current_node_cells 0 ns)))"
  have inv: "has_surrogates ?nm l \<Longrightarrow>
      map_get ?M (map_get ?nm (end_id (source l))) = end_id (source l) \<and>
      map_get ?M (map_get ?nm (end_id (target l))) = end_id (target l)" for l :: Link
    by (simp add: has_surrogates_def nodeMap_defined surrogate_back)
  have surr: "has_surrogates ?nm l =
      (end_id (source l) \<in> nid ` set ns \<and> end_id (target l) \<in> nid ` set ns)" for l :: Link
    by (simp add: has_surrogates_def nodeMap_defined)
  have "wb_read_links ?M (map f (filter (has_surrogates ?nm) ls)) =
      map (\<lambda>l. mk_link (map_get ?M (map_get ?nm (end_id (source l))))
                  (map_get ?M (map_get ?nm (end_id (target l)))) (lweight l))
        (filter (\<lambda>l. has_surrogates ?nm l \<and>
                      truthy (map_get ?M (map_get ?nm (end_id (source l)))) \<and>
                      truthy (map_get ?M (map_get ?nm (end_id (target l))))) ls)"
    by (simp add: wb_read_links_eq filter_map comp_def rows conj_commute)
  also have "\<dots> = kept_links lweight ns ls"
    unfolding kept_links_def
  proof (rule map_filter_cong)
    fix l :: Link
    show "(has_surrogates ?nm l \<and>
           truthy (map_get ?M (map_get ?nm (end_id (source l)))) \<and>
           truthy (map_get ?M (map_get ?nm (end_id (target l))))) =
          (end_id (source l) \<in> set (map nid ns) \<and> truthy (end_id (source l)) \<and>
           end_id (target l) \<in> set (map nid ns) \<and> truthy (end_id (target l)))"
      using inv[of l] surr[of l] by auto
  next
    fix l :: Link
    assume "end_id (source l) \<in> set (map nid ns) \<and> truthy (end_id (source l)) \<and>
            end_id (target l) \<in> set (map nid ns) \<and> truthy (end_id (target l))"
    then have "has_surrogates ?nm l" by (simp add: surr)
    from inv[OF this]
    show "mk_link (map_get ?M (map_get ?nm (end_id (source l))))
            (map_get ?M (map_get ?nm (end_id (target l)))) (lweight l) =
          mk_link (end_id (source l)) (end_id (target l)) (lweight l)"
      by simp
  qed
  finally show ?thesis .
qed


lemma wb_current_nodes:
  assumes "ns = [] \<or> nid (hd ns) \<noteq> Undefined"
  shows "wb_read_nodes (map written (current_node_cells 0 ns)) =
     (map (\<lambda>n. mk_node (nid n) (weight n)) ns,
      map_of (rev (map (\<lambda>q. (getp q ''id'', getp q ''label'')) (current_node_cells 0 ns))))"
proof (cases ns)
  case Nil
  then show ?thesis by (simp add: wb_read_nodes_def)
next
  case (Cons n ns')
  with assms have "isNewSchema (map written (current_node_cells 0 ns))"
    by (simp add: isNewSchema_def has_key_written)
  then have "wb_read_nodes (map written (current_node_cells 0 ns)) =
      fold (wb_node_step True) (map written (current_node_cells 0 ns)) ([], Map.empty)"
    by (simp add: wb_read_nodes_def)
  then show ?thesis
    by (simp only: wb_fold_nodes_new current_pairs current_nodes) simp
qed

lemma db_node_step_wb: "db_node_step b cols = (\<lambda>r. wb_node_step b (row_obj cols r))"
  by (intro ext) (simp add: db_node_step_def wb_node_step_def Let_def)

lemma db_link_step_wb: "db_link_step m cols = (\<lambda>r. wb_link_step m (row_obj cols r))"
  by (intro ext) (simp add: db_link_step_def wb_link_step_def Let_def)

lemma db_read_nodes_wb:
  "db_read_nodes t =
     fold (wb_node_step (''label'' \<in> set (columns t))) (map (row_obj (columns t)) (tvalues t)) ([], Map.empty)"
  by (simp add: db_read_nodes_def fold_map comp_def db_node_step_wb)

lemma db_read_links_wb:
  "db_read_links m t = wb_read_links m (map (row_obj (columns t)) (tvalues t))"
  by (simp add: db_read_links_def wb_read_links_def fold_map comp_def db_link_step_wb)

lemma row_obj3:
  "getp (row_obj [''id'', ''label'', ''weight''] [x, y, z]) ''id'' = x"
  "getp (row_obj [''id'', ''label'', ''weight''] [x, y, z]) ''label'' = y"
  "getp (row_obj [''id'', ''label'', ''weight''] [x, y, z]) ''weight'' = z"
  "getp (row_obj [''source'', ''target'', ''weight''] [x, y, z]) ''source'' = x"
  "getp (row_obj [''source'', ''target'', ''weight''] [x, y, z]) ''target'' = y"
  "getp (row_obj [''source'', ''target'', ''weight''] [x, y, z]) ''weight'' = z"
  by (simp_all add: row_obj_def getp_def)

lemma row_obj2:
  "getp (row_obj [''id'', ''weight''] [x, y]) ''id'' = x"
  "getp (row_obj [''id'', ''weight''] [x, y]) ''weight'' = y"
  by (simp_all add: row_obj_def getp_def)

lemma db_legacy_nodes:
  "db_read_nodes \<lparr>columns = [''id'', ''weight''], tvalues = map (map snd \<circ> legacy_node_cells) ns\<rparr> =
     (map (\<lambda>n. mk_node (nid n) (weight n)) ns, id_map ns)"
  by (simp add: db_read_nodes_wb wb_fold_nodes_old comp_def legacy_node_cells_def row_obj2
      map_of_rev_diag id_map_def)

lemma db_legacy_links:
  "db_read_links (id_map ns)
     \<lparr>columns = [''source'', ''target'', ''weight''], tvalues = map (map snd \<circ> legacy_link_cells) ls\<rparr> =
   kept_links lweight ns ls"
proof -
  have "wb_read_links (id_map ns)
      (map (\<lambda>l. row_obj [''source'', ''target'', ''weight''] (map snd (legacy_link_cells l))) ls) =
      map (\<lambda>l. mk_link (map_get (id_map ns) (end_id (source l)))
                  (map_get (id_map ns) (end_id (target l))) (lweight l))
        (filter (\<lambda>l. truthy (map_get (id_map ns) (end_id (source l))) \<and>
                      truthy (map_get (id_map ns) (end_id (target l)))) ls)"
    by (simp add: wb_read_links_eq filter_map comp_def legacy_link_cells_def row_obj3)
  also have "\<dots> = kept_links lweight ns ls"
    unfolding kept_links_def
    by (rule map_filter_cong) (auto simp: map_get_id_map)
  finally show ?thesis
    by (simp add: db_read_links_wb comp_def)
qed

lemma db_current_pairs:
  "map (\<lambda>q. (getp q ''id'', getp q ''label''))
     (map (row_obj [''id'', ''label'', ''weight'']) (map (map snd) (current_node_cells i ns))) =
   map (\<lambda>q. (getp q ''id'', getp q ''label'')) (current_node_cells i ns)"
  by (induction ns arbitrary: i) (simp_all add: row_obj3, simp_all add: getp_def)

lemma db_current_nodes_list:
  "map (\<lambda>q. mk_node (getp q ''label'') (getp q ''weight''))
     (map (row_obj [''id'', ''label'', ''weight'']) (map (map snd) (current_node_cells i ns))) =
   map (\<lambda>n. mk_node (nid n) (weight n)) ns"
  by (induction ns arbitrary: i) (simp_all add: row_obj3)

lemma db_current_nodes:
  "db_read_nodes \<lparr>columns = [''id'', ''label'', ''weight''],
                  tvalues = map (map snd) (current_node_cells 0 ns)\<rparr> =
     (map (\<lambda>n. mk_node (nid n) (weight n)) ns,
      map_of (rev (map (\<lambda>q. (getp q ''id'', getp q ''label'')) (current_node_cells 0 ns))))"
proof -
  have "db_read_nodes \<lparr>columns = [''id'', ''label'', ''weight''],
                        tvalues = map (map snd) (current_node_cells 0 ns)\<rparr> =
      fold (wb_node_step True)
        (map (row_obj [''id'', ''label'', ''weight'']) (map (map snd) (current_node_cells 0 ns)))
        ([], Map.empty)"
    by (simp add: db_read_nodes_wb del: map_map)
  then show ?thesis
    by (simp only: wb_fold_nodes_new db_current_pairs db_current_nodes_list) simp
qed

lemma db_current_links:
  "db_read_links (map_of (rev (map (\<lambda>q. (getp q ''id'', getp q ''label'')) (current_node_cells 0 ns))))
     \<lparr>columns = [''source'', ''target'', ''weight''],
      tvalues = map (map snd \<circ> current_link_cells (nodeMap_from 0 ns Map.empty))
                  (filter (has_surrogates (nodeMap_from 0 ns Map.empty)) ls)\<rparr> =
   kept_links lweight ns ls"
proof -
  let ?f = "\<lambda>l. row_obj [''source'', ''target'', ''weight'']
                   (map snd (current_link_cells (nodeMap_from 0 ns Map.empty) l))"
  have "wb_read_links (map_of (rev (map (\<lambda>q. (getp q ''id'', getp q ''label'')) (current_node_cells 0 ns))))
      (map ?f (filter (has_surrogates (nodeMap_from 0 ns Map.empty)) ls)) = kept_links lweight ns ls"
    by (rule current_links_decoded) (simp_all add: current_link_cells_def row_obj3)
  then show ?thesis
    by (simp add: db_read_links_wb comp_def)
qed

lemma wb_current_links:
  "wb_read_links (map_of (rev (map (\<lambda>q. (getp q ''id'', getp q ''label'')) (current_node_cells 0 ns))))
     (map (written \<circ> current_link_cells (nodeMap_from 0 ns Map.empty))
        (filter (has_surrogates (nodeMap_from 0 ns Map.empty)) ls)) =
   kept_links lweight ns ls"
  by (rule current_links_decoded) (simp_all add: current_link_getp)

lemma kept_links_raw_str:
  assumes "\<forall>n\<in>set ns. is_str (nid n)" and "l \<in> set (kept_links w ns ls)"
  shows "\<exists>s t. source l = Raw (Str s) \<and> target l = Raw (Str t)"
proof -
  from assms(2) obtain k where k: "l = mk_link (end_id (source k)) (end_id (target k)) (w k)"
    and s: "end_id (source k) \<in> set (map nid ns)" and t: "end_id (target k) \<in> set (map nid ns)"
    by (auto simp: kept_links_def)
  from s assms(1) have "is_str (end_id (source k))" by auto
  moreover from t assms(1) have "is_str (end_id (target k))" by auto
  ultimately show ?thesis
    by (auto simp: k mk_link_def is_str_def split: jsval.splits)
qed

text \<open>
  C2. For a graph whose node ids are strings, the Legacy tables and the Current tables of
  the graph decode to the same result, from a workbook and from a database: the nodes with
  their ids and weights, and the links whose endpoints are both node ids (and truthy), with
  raw string endpoints. The Legacy table gives the identity map on the node ids; the
  Current table gives a map that sends the surrogate of every node id back to the id.
\<close>

theorem schema_version_transparency:
  assumes "\<forall>n\<in>set (nodes g). is_str (nid n)"
  shows "(\<exists>r. decode_workbook pI f (legacy_workbook ms g) = Inr r \<and>
              decode_workbook pI f (current_workbook ms g) = Inr r \<and>
              nodes r = map (\<lambda>n. mk_node (nid n) (weight n)) (nodes g) \<and>
              links r = kept_links lweight (nodes g) (links g) \<and>
              (\<forall>l\<in>set (links r). \<exists>s t. source l = Raw (Str s) \<and> target l = Raw (Str t))) \<and>
         (\<exists>r. decode_sqlite pI f (legacy_db mt g) = Inr r \<and>
              decode_sqlite pI f (current_db mt g) = Inr r \<and>
              nodes r = map (\<lambda>n. mk_node (nid n) (weight n)) (nodes g) \<and>
              links r = kept_links lweight (nodes g) (links g) \<and>
              (\<forall>l\<in>set (links r). \<exists>s t. source l = Raw (Str s) \<and> target l = Raw (Str t))) \<and>
         snd (wb_read_nodes (map (written \<circ> legacy_node_cells) (nodes g))) = id_map (nodes g) \<and>
         (\<forall>v\<in>set (map nid (nodes g)).
            map_get (snd (wb_read_nodes (map written (current_node_cells 0 (nodes g)))))
              (map_get (nodeMap_from 0 (nodes g) Map.empty) v) = v)"
proof -
  from assms have first: "nodes g = [] \<or> nid (hd (nodes g)) \<noteq> Undefined"
    by (cases "nodes g") (auto simp: is_str_def)
  have raw: "\<forall>l\<in>set (kept_links lweight (nodes g) (links g)).
      \<exists>s t. source l = Raw (Str s) \<and> target l = Raw (Str t)"
    using kept_links_raw_str[OF assms] by blast
  have wb: "decode_workbook pI f (current_workbook ms g) = decode_workbook pI f (legacy_workbook ms g)"
    by (simp add: decode_workbook_def current_workbook_def legacy_workbook_def
        wb_current_nodes[OF first] wb_legacy_nodes wb_current_links wb_legacy_links)
  have wbl: "\<exists>r. decode_workbook pI f (legacy_workbook ms g) = Inr r \<and>
      nodes r = map (\<lambda>n. mk_node (nid n) (weight n)) (nodes g) \<and>
      links r = kept_links lweight (nodes g) (links g)"
    by (simp add: decode_workbook_def legacy_workbook_def wb_legacy_nodes wb_legacy_links Let_def)
  have db: "decode_sqlite pI f (current_db mt g) = decode_sqlite pI f (legacy_db mt g)"
    by (simp add: decode_sqlite_def current_db_def legacy_db_def
        db_current_nodes db_legacy_nodes db_current_links db_legacy_links)
  have dbl: "\<exists>r. decode_sqlite pI f (legacy_db mt g) = Inr r \<and>
      nodes r = map (\<lambda>n. mk_node (nid n) (weight n)) (nodes g) \<and>
      links r = kept_links lweight (nodes g) (links g)"
    by (simp add: decode_sqlite_def legacy_db_def db_legacy_nodes db_legacy_links Let_def)
  have m1: "snd (wb_read_nodes (map (written \<circ> legacy_node_cells) (nodes g))) = id_map (nodes g)"
    by (simp add: wb_legacy_nodes)
  have m2: "\<forall>v\<in>set (map nid (nodes g)).
            map_get (snd (wb_read_nodes (map written (current_node_cells 0 (nodes g)))))
              (map_get (nodeMap_from 0 (nodes g) Map.empty) v) = v"
    by (simp add: wb_current_nodes[OF first] surrogate_back)
  from wb wbl raw db dbl m1 m2 show ?thesis
    by (metis (no_types, lifting))
qed

theorem schema_version_transparency_witness:
  "decode_workbook nan_parseInt ''g.xlsx'' (current_workbook None example_graph) =
     decode_workbook nan_parseInt ''g.xlsx'' (legacy_workbook None example_graph) \<and>
   decode_sqlite nan_parseInt ''g.db'' (current_db None example_graph) =
     decode_sqlite nan_parseInt ''g.db'' (legacy_db None example_graph)"
proof -
  have h: "\<forall>n\<in>set (nodes example_graph). is_str (nid n)"
    by (simp add: example_graph_def example_node_def is_str_def)
  from schema_version_transparency[OF h, of nan_parseInt "''g.xlsx''" None None]
  have wb: "decode_workbook nan_parseInt ''g.xlsx'' (current_workbook None example_graph) =
     decode_workbook nan_parseInt ''g.xlsx'' (legacy_workbook None example_graph)"
    by auto
  from schema_version_transparency[OF h, of nan_parseInt "''g.db''" None None]
  have db: "decode_sqlite nan_parseInt ''g.db'' (current_db None example_graph) =
     decode_sqlite nan_parseInt ''g.db'' (legacy_db None example_graph)"
    by auto
  from wb db show ?thesis by simp
qed

subsection \<open>Links that are dropped\<close>

text \<open>
  When every label in the map is truthy, the links decoded are the rows less the dangling
  ones, and a dangling row never adds a link.
\<close>

lemma links_count_when_labels_truthy:
  assumes "\<And>k v. m k = Some v \<Longrightarrow> truthy v"
  shows "length (wb_read_links m rows) =
     length rows - length (filter (\<lambda>r. m (getp r ''source'') = None \<or> m (getp r ''target'') = None) rows)"
proof -
  have t: "truthy (map_get m k) = (m k \<noteq> None)" for k
    using assms[of k] by (cases "m k") (auto simp: map_get_def)
  have "length (wb_read_links m rows) =
      length (filter (\<lambda>r. \<not> (m (getp r ''source'') = None \<or> m (getp r ''target'') = None)) rows)"
    by (simp add: wb_read_links_eq t)
  also have "\<dots> = length rows -
      length (filter (\<lambda>r. m (getp r ''source'') = None \<or> m (getp r ''target'') = None) rows)"
    using sum_length_filter_compl[of "\<lambda>r. m (getp r ''source'') = None \<or> m (getp r ''target'') = None" rows]
    by simp
  finally show ?thesis .
qed

lemma dangling_links_dropped:
  "m (getp r ''source'') = None \<or> m (getp r ''target'') = None \<Longrightarrow>
   wb_link_step m r ls = ls"
  by (auto simp: wb_link_step_def map_get_def Let_def)

text \<open>
  C3. A link whose source or target is absent from the map built from the node table is
  omitted and the decode goes on; the decoded link count is the input count less the
  dangling links, and every other link is kept. The decoder tests the labels it looked up
  for truthiness, so this fails for a node whose label is the empty string: in the database
  below both endpoints of the one link are rows of the node table, no link is dangling, and
  the decode returns both nodes and no link.
\<close>

theorem decode_drops_link_to_empty_label:
  "decode_sqlite nan_parseInt ''g.db''
     \<lparr>nodes_table = Some \<lparr>columns = [''id'', ''label'', ''weight''],
                           tvalues = [[Num 1, Str '''', Num (1/2)], [Num 2, Str ''A'', Num (3/10)]]\<rparr>,
      links_table = Some \<lparr>columns = [''source'', ''target'', ''weight''],
                           tvalues = [[Num 1, Num 2, Num 1]]\<rparr>,
      meta_table = None\<rparr>
   = Inr \<lparr>nodes = [mk_node (Str '''') (Num (1/2)), mk_node (Str ''A'') (Num (3/10))],
          links = [],
          meta = Some (default_meta ''g.db'' 2 0),
          group_names = None\<rparr>"
  by (simp add: decode_sqlite_def db_read_nodes_def db_node_step_def db_read_links_def
      db_link_step_def row_obj_def getp_def map_get_def Let_def default_meta_def nan_parseInt_def)

text \<open>The same in a Legacy workbook whose first node has the number 0 as its id.\<close>

lemma decode_drops_link_to_zero_label:
  "decode_workbook nan_parseInt ''g.xlsx''
     \<lparr>Nodes_sheet = Some [[(''id'', Num 0), (''weight'', Num (1/2))], [(''id'', Num 1), (''weight'', Num (3/10))]],
      Links_sheet = Some [[(''source'', Num 0), (''target'', Num 1), (''weight'', Num 1)]],
      Meta_sheet = None\<rparr>
   = Inr \<lparr>nodes = [mk_node (Num 0) (Num (1/2)), mk_node (Num 1) (Num (3/10))],
          links = [],
          meta = Some (default_meta ''g.xlsx'' 2 0),
          group_names = None\<rparr>"
  by (simp add: decode_workbook_def wb_read_nodes_def wb_node_step_def wb_read_links_def isNewSchema_def has_key_def
      wb_link_step_def getp_def map_get_def Let_def default_meta_def nan_parseInt_def)


subsection \<open>What the exporters write\<close>

lemma mapM_total: "(\<And>x. x \<in> set xs \<Longrightarrow> f x = Inr (g x)) \<Longrightarrow> mapM f xs = Inr (map g xs)"
  by (induction xs) simp_all

lemma mapM_Inr_D: "mapM f xs = Inr ys \<Longrightarrow> x \<in> set xs \<Longrightarrow> \<exists>y. f x = Inr y"
  by (induction xs arbitrary: ys) (auto split: sum.splits)

text \<open>The graph whose Legacy workbook the Excel export writes.\<close>

lemma xl_node_row_num:
  "is_num (weight n) \<Longrightarrow> xl_node_row fix2 n = Inr (legacy_node_cells (n\<lparr>weight := rounded fix2 (weight n)\<rparr>))"
  by (cases "weight n") (simp_all add: xl_node_row_def legacy_node_cells_def rounded_def)

lemma xl_node_row_Inr: "xl_node_row fix2 n = Inr r \<Longrightarrow> is_num (weight n)"
  by (cases "weight n") (simp_all add: xl_node_row_def)

lemma xl_link_row_num:
  "is_num (lweight l) \<Longrightarrow>
   xl_link_row fix2 l = Inr (legacy_link_cells
     \<lparr>source = Raw (cell_of (getId (source l))), target = Raw (cell_of (getId (target l))),
      lweight = rounded fix2 (lweight l), lvalue = lvalue l\<rparr>)"
  by (cases "lweight l") (simp_all add: xl_link_row_def legacy_link_cells_def rounded_def)

lemma xl_link_row_Inr: "xl_link_row fix2 l = Inr r \<Longrightarrow> is_num (lweight l)"
  by (cases "lweight l") (simp_all add: xl_link_row_def)

lemma excel_export_legacy:
  assumes "\<forall>n\<in>set (nodes g). is_num (weight n)" and "\<forall>l\<in>set (links g). is_num (lweight l)"
  shows "exportDataToExcel fix2 g =
     Inr (legacy_workbook (map_option (map written \<circ> xl_meta_rows) (meta g))
       \<lparr>nodes = map (\<lambda>n. n\<lparr>weight := rounded fix2 (weight n)\<rparr>) (nodes g),
        links = map (\<lambda>l. \<lparr>source = Raw (cell_of (getId (source l))),
                           target = Raw (cell_of (getId (target l))),
                           lweight = rounded fix2 (lweight l), lvalue = lvalue l\<rparr>) (links g),
        meta = meta g, group_names = group_names g\<rparr>)"
proof -
  have n: "mapM (xl_node_row fix2) (nodes g) =
      Inr (map (\<lambda>n. legacy_node_cells (n\<lparr>weight := rounded fix2 (weight n)\<rparr>)) (nodes g))"
    using assms(1) by (intro mapM_total) (simp add: xl_node_row_num)
  have l: "mapM (xl_link_row fix2) (links g) =
      Inr (map (\<lambda>l. legacy_link_cells
        \<lparr>source = Raw (cell_of (getId (source l))), target = Raw (cell_of (getId (target l))),
         lweight = rounded fix2 (lweight l), lvalue = lvalue l\<rparr>) (links g))"
    using assms(2) by (intro mapM_total) (simp add: xl_link_row_num)
  show ?thesis
    by (simp add: exportDataToExcel_def n l legacy_workbook_def comp_def split: option.splits)
qed

lemma excel_export_Inr:
  assumes "exportDataToExcel fix2 g = Inr wb"
  shows "(\<forall>n\<in>set (nodes g). is_num (weight n)) \<and> (\<forall>l\<in>set (links g). is_num (lweight l))"
proof -
  from assms obtain nodesArr linksArr where
    n: "mapM (xl_node_row fix2) (nodes g) = Inr nodesArr" and l: "mapM (xl_link_row fix2) (links g) = Inr linksArr"
    by (auto simp: exportDataToExcel_def split: sum.splits)
  show ?thesis
    using mapM_Inr_D[OF n] mapM_Inr_D[OF l] xl_node_row_Inr xl_link_row_Inr by blast
qed

lemma id_map_rounded: "id_map (map (\<lambda>n. n\<lparr>weight := rounded fix2 (weight n)\<rparr>) ns) = id_map ns"
  by (simp add: id_map_def comp_def)

lemma decode_legacy_workbook:
  "decode_workbook pI f (legacy_workbook ms g) =
     Inr \<lparr>nodes = map (\<lambda>n. mk_node (nid n) (weight n)) (nodes g),
          links = kept_links lweight (nodes g) (links g),
          meta = Some (case ms of
                   None \<Rightarrow> default_meta f (length (nodes g)) (length (kept_links lweight (nodes g) (links g)))
                 | Some metaArr \<Rightarrow> meta_of_obj pI f (wb_meta_obj metaArr) (length (nodes g))
                                      (length (kept_links lweight (nodes g) (links g)))),
          group_names = None\<rparr>"
  by (simp add: decode_workbook_def legacy_workbook_def wb_legacy_nodes wb_legacy_links Let_def
      split: option.splits)






lemma nodeMap_from_append:
  "nodeMap_from i (xs @ ys) m = nodeMap_from (i + length xs) ys (nodeMap_from i xs m)"
  by (induction xs arbitrary: i m) simp_all

lemma nodeMap_at:
  assumes "distinct (map nid (pre @ n # post))"
  shows "nodeMap_from 0 (pre @ n # post) Map.empty (nid n) = Some (Num (of_nat (Suc (length pre))))"
proof -
  from assms have "nid n \<notin> set (map nid post)" by simp
  then show ?thesis
    by (simp add: nodeMap_from_append nodeMap_from_other del: of_nat_Suc)
qed

lemma text_affinity_str: "is_str v \<Longrightarrow> text_affinity sq v = v"
  by (cases v) (simp_all add: text_affinity_def is_str_def)

lemma real_affinity_num: "is_num v \<Longrightarrow> real_affinity sq v = v"
  by (cases v) (simp_all add: real_affinity_def)

lemma insert_nodes_rows:
  "insert_nodes sq nm seen ns = Inr rs \<Longrightarrow>
   rs = map (\<lambda>n. [map_get nm (nid n), text_affinity sq (nid n), real_affinity sq (weight n)]) ns"
  by (induction ns arbitrary: seen rs) (auto simp: bind_row_def split: if_splits sum.splits)

lemma insert_nodes_distinct:
  assumes "distinct (map nid (pre @ ns))"
    and "\<forall>n\<in>set ns. is_str (nid n) \<and> is_num (weight n)"
    and "\<forall>s\<in>set seen. \<exists>j. s = Num (of_nat j) \<and> j \<le> length pre"
  shows "insert_nodes sq (nodeMap_from 0 (pre @ ns) Map.empty) seen ns =
           Inr (map (map snd) (current_node_cells (length pre) ns))"
  using assms
proof (induction ns arbitrary: pre seen)
  case Nil
  then show ?case by simp
next
  case (Cons n ns)
  let ?nm = "nodeMap_from 0 (pre @ n # ns) Map.empty"
  have at: "map_get ?nm (nid n) = Num (of_nat (Suc (length pre)))"
    using nodeMap_at[OF Cons.prems(1)] by (simp add: map_get_def del: of_nat_Suc)
  have fresh: "Num (of_nat (Suc (length pre))) \<notin> set seen"
  proof
    assume "Num (of_nat (Suc (length pre))) \<in> set seen"
    with Cons.prems(3) obtain j where "Num (of_nat (Suc (length pre))) = Num (of_nat j)" "j \<le> length pre"
      by blast
    then show False by (simp del: of_nat_Suc)
  qed
  have d: "distinct (map nid ((pre @ [n]) @ ns))"
    using Cons.prems(1) by simp
  have s: "\<forall>s\<in>set (Num (of_nat (Suc (length pre))) # seen). \<exists>j. s = Num (of_nat j) \<and> j \<le> length (pre @ [n])"
    using Cons.prems(3) by (auto intro: le_SucI simp del: of_nat_Suc)
  have b: "\<forall>n\<in>set ns. is_str (nid n) \<and> is_num (weight n)"
    using Cons.prems(2) by simp
  from Cons.IH[OF d b s]
  have ih: "insert_nodes sq ?nm (Num (of_nat (Suc (length pre))) # seen) ns =
      Inr (map (map snd) (current_node_cells (Suc (length pre)) ns))"
    by simp
  from Cons.prems(2) have sn: "is_str (nid n)" "is_num (weight n)" by simp_all
  then have defd: "nid n \<noteq> Undefined" "weight n \<noteq> Undefined"
    by (auto simp: is_str_def)
  show ?case
    using fresh defd
    by (simp add: at ih bind_row_def text_affinity_str[OF sn(1)] real_affinity_num[OF sn(2)]
        del: of_nat_Suc)
qed

lemma nodeMap_truthy:
  "truthy (map_get (nodeMap_from 0 ns Map.empty) v) = (nodeMap_from 0 ns Map.empty v \<noteq> None)"
proof (cases "v \<in> set (map nid ns)")
  case True
  from nodeMap_from_dom[OF True, of 0 Map.empty] show ?thesis
    by (auto simp: map_get_def)
next
  case False
  then show ?thesis
    by (simp add: nodeMap_from_other map_get_def)
qed

lemma surrogate_getId:
  assumes "\<forall>n\<in>set ns. truthy (nid n)"
  shows "surrogate (nodeMap_from 0 ns Map.empty) (getId e) =
         map_get (nodeMap_from 0 ns Map.empty) (end_id e)"
proof (cases e)
  case (Raw v)
  then show ?thesis by simp
next
  case (Ref n)
  show ?thesis
  proof (cases "truthy (nid n)")
    case True
    with Ref show ?thesis by simp
  next
    case False
    with assms have "nid n \<notin> set (map nid ns)" by auto
    with Ref False show ?thesis
      by (simp add: nodeMap_from_other map_get_def)
  qed
qed

lemma insert_links_current:
  assumes "\<forall>n\<in>set ns. truthy (nid n)" and "\<forall>l\<in>set ls. is_num (lweight l)"
  shows "insert_links sq (nodeMap_from 0 ns Map.empty) ls =
     Inr (map (map snd \<circ> current_link_cells (nodeMap_from 0 ns Map.empty))
            (filter (has_surrogates (nodeMap_from 0 ns Map.empty)) ls))"
  using assms(2)
proof (induction ls)
  case Nil
  then show ?case by simp
next
  case (Cons l ls)
  let ?nm = "nodeMap_from 0 ns Map.empty"
  have c: "(truthy (surrogate ?nm (getId (source l))) \<and> truthy (surrogate ?nm (getId (target l)))) =
      has_surrogates ?nm l"
    by (simp add: surrogate_getId[OF assms(1)] nodeMap_truthy has_surrogates_def)
  from Cons have ih: "insert_links sq ?nm ls =
      Inr (map (map snd \<circ> current_link_cells ?nm) (filter (has_surrogates ?nm) ls))"
    by simp
  from Cons.prems have wn: "is_num (lweight l)" by simp
  then have w: "lweight l \<noteq> Undefined" by auto
  show ?case
  proof (cases "has_surrogates ?nm l")
    case True
    then have t: "truthy (surrogate ?nm (getId (source l)))" "truthy (surrogate ?nm (getId (target l)))"
      using c by blast+
    then have u: "surrogate ?nm (getId (source l)) \<noteq> Undefined" "surrogate ?nm (getId (target l)) \<noteq> Undefined"
      by auto
    from True t u w show ?thesis
      by (simp add: ih bind_row_def Let_def current_link_cells_def surrogate_getId[OF assms(1)]
          real_affinity_num[OF wn])
  next
    case False
    then have "\<not> (truthy (surrogate ?nm (getId (source l))) \<and> truthy (surrogate ?nm (getId (target l))))"
      using c by blast
    with False show ?thesis
      by (auto simp: ih Let_def)
  qed
qed

lemma insert_meta_bindable: "bindable_meta mo \<Longrightarrow> \<exists>rows. insert_meta numText sq mo = Inr rows"
  by (auto simp: bindable_meta_def insert_meta_def bind_row_def js_toString_def
      split: option.splits jsval.splits)

lemma sqlite_export_current:
  assumes "distinct (map nid (nodes g))"
    and "\<forall>n\<in>set (nodes g). is_str (nid n) \<and> truthy (nid n) \<and> is_num (weight n)"
    and "\<forall>l\<in>set (links g). is_num (lweight l)"
    and "bindable_meta (meta g)"
  shows "\<exists>mrows. exportDataToSQLite numText sq g =
     Inr (current_db (Some \<lparr>columns = [''key'', ''value''], tvalues = mrows\<rparr>) g)"
proof -
  from assms(2) have defd: "\<forall>n\<in>set (nodes g). is_str (nid n) \<and> is_num (weight n)"
    by auto
  from assms(2) have tr: "\<forall>n\<in>set (nodes g). truthy (nid n)" by simp
  have n: "insert_nodes sq (nodeMap_from 0 (nodes g) Map.empty) [] (nodes g) =
      Inr (map (map snd) (current_node_cells 0 (nodes g)))"
    using insert_nodes_distinct[of "[]" "nodes g" "[]"] assms(1) defd by simp
  from insert_meta_bindable[OF assms(4)] obtain mrows where m: "insert_meta numText sq (meta g) = Inr mrows"
    by blast
  show ?thesis
    by (rule exI[of _ mrows])
      (simp add: exportDataToSQLite_def Let_def n insert_links_current[OF tr assms(3)] m current_db_def)
qed







lemma is_num_defined: "is_num v \<Longrightarrow> v \<noteq> Undefined"
  by (cases v) simp_all


subsection \<open>The Plain format through JSON\<close>















text \<open>
  The claim as the specification states it, for any graph, fails on a graph with a link to
  an id that is no node: the workbook holds the link's row, and the decode drops it.
\<close>

lemma decimal_round2_examples:
  "decimal_round2 (1/2) = 1/2" "decimal_round2 (3/10) = 3/10" "decimal_round2 (1/5) = 1/5"
  "decimal_round2 1 = 1" "decimal_round2 2 = 2"
  by code_simp+



subsection \<open>What the tabular formats leave out\<close>

lemma mk_node_only: "no_other_property (mk_node i w)"
  by (simp add: no_other_property_def mk_node_def)

lemma wb_read_nodes_fst:
  "fst (wb_read_nodes rows) =
     map (\<lambda>q. mk_node (getp q (if isNewSchema rows then ''label'' else ''id'')) (getp q ''weight'')) rows"
  by (cases "isNewSchema rows") (simp_all add: wb_read_nodes_def wb_fold_nodes_new wb_fold_nodes_old)

lemma db_read_nodes_fst:
  "fst (db_read_nodes t) =
     map (\<lambda>r. mk_node (getp (row_obj (columns t) r) (if ''label'' \<in> set (columns t) then ''label'' else ''id''))
                 (getp (row_obj (columns t) r) ''weight'')) (tvalues t)"
  by (cases "''label'' \<in> set (columns t)")
     (simp_all add: db_read_nodes_wb wb_fold_nodes_new wb_fold_nodes_old comp_def)

lemma decode_sqlite_nodes:
  assumes "decode_sqlite pI f db = Inr r"
  shows "\<exists>t. nodes_table db = Some t \<and> nodes r = fst (db_read_nodes t) \<and> group_names r = None"
  using assms
  by (auto simp: decode_sqlite_def Let_def split: option.splits prod.splits)

lemma decode_sqlite_total:
  "nodes_table db \<noteq> None \<Longrightarrow> links_table db \<noteq> None \<Longrightarrow> \<exists>r. decode_sqlite pI f db = Inr r"
  by (auto simp: decode_sqlite_def Let_def split: option.splits prod.splits)

lemma mapM_map: "mapM f (map h xs) = mapM (\<lambda>x. f (h x)) xs"
  by (induction xs) (simp_all cong: sum.case_cong)

lemma getId_forget:
  "cell_of (getId (forget_end e)) = cell_of (getId e)"
  "surrogate m (getId (forget_end e)) = surrogate m (getId e)"
  by (cases e; simp add: forget_node_def)+

lemma xl_node_row_forget: "xl_node_row fix2 (forget_node n) = xl_node_row fix2 n"
  by (cases "weight n") (simp_all add: xl_node_row_def forget_node_def)

lemma xl_link_row_forget: "xl_link_row fix2 (forget_link l) = xl_link_row fix2 l"
  by (cases "lweight l") (simp_all add: xl_link_row_def forget_link_def getId_forget)

lemma excel_export_forget: "exportDataToExcel fix2 (forget g) = exportDataToExcel fix2 g"
proof -
  have "nodes (forget g) = map forget_node (nodes g)" "links (forget g) = map forget_link (links g)"
    "meta (forget g) = meta g"
    by (simp_all add: forget_def)
  then show ?thesis
    by (simp add: exportDataToExcel_def mapM_map xl_node_row_forget xl_link_row_forget
        cong: sum.case_cong)
qed

lemma nodeMap_from_forget: "nodeMap_from i (map forget_node ns) m = nodeMap_from i ns m"
  by (induction ns arbitrary: i m) (simp_all add: forget_node_def)

lemma insert_nodes_forget: "insert_nodes sq m seen (map forget_node ns) = insert_nodes sq m seen ns"
  by (induction ns arbitrary: seen) (simp_all add: forget_node_def cong: sum.case_cong if_cong)

lemma insert_links_forget: "insert_links sq m (map forget_link ls) = insert_links sq m ls"
proof (induction ls)
  case Nil
  then show ?case by simp
next
  case (Cons l ls)
  have "source (forget_link l) = forget_end (source l)" "target (forget_link l) = forget_end (target l)"
    "lweight (forget_link l) = lweight l"
    by (simp_all add: forget_link_def)
  then show ?case
    by (simp add: Cons.IH getId_forget Let_def cong: sum.case_cong if_cong)
qed

lemma sqlite_export_forget:
  "exportDataToSQLite numText sq (forget g) = exportDataToSQLite numText sq g"
proof -
  have "nodes (forget g) = map forget_node (nodes g)" "links (forget g) = map forget_link (links g)"
    "meta (forget g) = meta g"
    by (simp_all add: forget_def)
  then show ?thesis
    by (simp add: exportDataToSQLite_def nodeMap_from_forget insert_nodes_forget insert_links_forget
        cong: sum.case_cong)
qed

lemma excel_decode_nodes:
  assumes ex: "exportDataToExcel fix2 g = Inr wb"
  shows "\<exists>r. decode_workbook pI f wb = Inr r \<and>
           map nid (nodes r) = map nid (nodes g) \<and>
           map weight (nodes r) = map (\<lambda>n. rounded fix2 (weight n)) (nodes g) \<and>
           list_all no_other_property (nodes r) \<and> group_names r = None"
proof -
  from excel_export_Inr[OF ex] have wn: "\<forall>n\<in>set (nodes g). is_num (weight n)"
    and wl: "\<forall>l\<in>set (links g). is_num (lweight l)" by blast+
  from ex excel_export_legacy[OF wn wl, of fix2] have wb: "wb =
     legacy_workbook (map_option (map written \<circ> xl_meta_rows) (meta g))
       \<lparr>nodes = map (\<lambda>n. n\<lparr>weight := rounded fix2 (weight n)\<rparr>) (nodes g),
        links = map (\<lambda>l. \<lparr>source = Raw (cell_of (getId (source l))),
                           target = Raw (cell_of (getId (target l))),
                           lweight = rounded fix2 (lweight l), lvalue = lvalue l\<rparr>) (links g),
        meta = meta g, group_names = group_names g\<rparr>"
    by simp
  show ?thesis
    by (simp add: wb decode_legacy_workbook list_all_iff comp_def mk_node_def
        no_other_property_def)
qed

lemma sqlite_decode_nodes:
  assumes ex: "exportDataToSQLite numText sq g = Inr db"
  shows "\<exists>r. decode_sqlite pI f db = Inr r \<and>
           map nid (nodes r) = map (\<lambda>n. text_affinity sq (nid n)) (nodes g) \<and>
           map weight (nodes r) = map (\<lambda>n. real_affinity sq (weight n)) (nodes g) \<and>
           list_all no_other_property (nodes r) \<and> group_names r = None"
proof -
  let ?nm = "nodeMap_from 0 (nodes g) Map.empty"
  from ex obtain nrows lrows mrows where
    n: "insert_nodes sq ?nm [] (nodes g) = Inr nrows" and
    db: "db = \<lparr>nodes_table = Some \<lparr>columns = [''id'', ''label'', ''weight''], tvalues = nrows\<rparr>,
               links_table = Some \<lparr>columns = [''source'', ''target'', ''weight''], tvalues = lrows\<rparr>,
               meta_table = Some \<lparr>columns = [''key'', ''value''], tvalues = mrows\<rparr>\<rparr>"
    by (auto simp: exportDataToSQLite_def Let_def split: sum.splits)
  from insert_nodes_rows[OF n] have rows: "nrows =
      map (\<lambda>n. [map_get ?nm (nid n), text_affinity sq (nid n), real_affinity sq (weight n)]) (nodes g)" .
  from decode_sqlite_total[of db pI f] obtain r where r: "decode_sqlite pI f db = Inr r"
    by (auto simp: db)
  from decode_sqlite_nodes[OF r] have nr: "nodes r = fst (db_read_nodes
      \<lparr>columns = [''id'', ''label'', ''weight''], tvalues = nrows\<rparr>)" and gn: "group_names r = None"
    by (simp_all add: db)
  have nodes: "nodes r =
      map (\<lambda>n. mk_node (text_affinity sq (nid n)) (real_affinity sq (weight n))) (nodes g)"
    by (simp add: nr db_read_nodes_fst rows comp_def row_obj3)
  have "map nid (nodes r) = map (\<lambda>n. text_affinity sq (nid n)) (nodes g)"
    "map weight (nodes r) = map (\<lambda>n. real_affinity sq (weight n)) (nodes g)"
    "list_all no_other_property (nodes r)"
    by (simp_all add: nodes comp_def list_all_iff mk_node_only) (simp_all add: mk_node_def)
  with r gn show ?thesis by blast
qed

text \<open>
  C10. Neither export reads anything of a node but its id and its weight, of a link but its
  endpoints and its weight, or the group names: the workbook and the database written for a
  graph are those written for the graph with every group, group name, position, velocity,
  pinned position and size, every link value and the group names erased. Whenever an export
  succeeds, decoding what it wrote succeeds and returns the nodes of the graph in order,
  each with the id and the weight the file holds for it (in the workbook the id and
  \<open>Number(w.toFixed(2))\<close>; in the database the id as the TEXT column and the weight as the
  REAL column store them) and with no group, group name, position, velocity, pinned
  position or size, in a graph that has no group names.
\<close>

theorem tabular_formats_keep_only_id_and_weight:
  "exportDataToExcel fix2 (forget g) = exportDataToExcel fix2 g \<and>
   exportDataToSQLite numText sq (forget g) = exportDataToSQLite numText sq g \<and>
   (exportDataToExcel fix2 g = Inr wb \<longrightarrow>
      (\<exists>r. decode_workbook pI f wb = Inr r \<and>
           map nid (nodes r) = map nid (nodes g) \<and>
           map weight (nodes r) = map (\<lambda>n. rounded fix2 (weight n)) (nodes g) \<and>
           list_all no_other_property (nodes r) \<and> group_names r = None)) \<and>
   (exportDataToSQLite numText sq g = Inr db \<longrightarrow>
      (\<exists>r. decode_sqlite pI f db = Inr r \<and>
           map nid (nodes r) = map (\<lambda>n. text_affinity sq (nid n)) (nodes g) \<and>
           map weight (nodes r) = map (\<lambda>n. real_affinity sq (weight n)) (nodes g) \<and>
           list_all no_other_property (nodes r) \<and> group_names r = None))"
  using excel_export_forget[of fix2 g] sqlite_export_forget[of numText sq g]
    excel_decode_nodes[of fix2 g wb pI f] sqlite_decode_nodes[of numText sq g db pI f]
  by blast

theorem tabular_formats_keep_only_id_and_weight_witness:
  "(\<exists>wb r. exportDataToExcel decimal_round2 example_graph = Inr wb \<and>
      exportDataToExcel decimal_round2 (forget example_graph) = Inr wb \<and>
      decode_workbook nan_parseInt ''g.xlsx'' wb = Inr r \<and>
      map nid (nodes r) = [Str ''A'', Str ''B'', Str ''C''] \<and>
      map weight (nodes r) = [Num (1/2), Num (3/10), Num (1/5)] \<and>
      list_all no_other_property (nodes r) \<and> group_names r = None) \<and>
   (\<exists>db r. exportDataToSQLite digits_text unread_sqlite example_graph = Inr db \<and>
      exportDataToSQLite digits_text unread_sqlite (forget example_graph) = Inr db \<and>
      decode_sqlite nan_parseInt ''g.db'' db = Inr r \<and>
      map nid (nodes r) = [Str ''A'', Str ''B'', Str ''C''] \<and>
      map weight (nodes r) = [Num (1/2), Num (3/10), Num (1/5)] \<and>
      list_all no_other_property (nodes r) \<and> group_names r = None) \<and>
   map group (nodes example_graph) = [Num 1, Num 1, Num 1] \<and>
   map group (nodes (forget example_graph)) = [Undefined, Undefined, Undefined]"
proof -
  have wn: "\<forall>n\<in>set (nodes example_graph). is_num (weight n)"
    by (simp add: example_graph_def example_node_def)
  have wl: "\<forall>l\<in>set (links example_graph). is_num (lweight l)"
    by (simp add: example_graph_def)
  from excel_export_legacy[OF wn wl, of decimal_round2] obtain wb
    where wb: "exportDataToExcel decimal_round2 example_graph = Inr wb"
    by blast
  have "distinct (map nid (nodes example_graph))"
    "\<forall>n\<in>set (nodes example_graph). is_str (nid n) \<and> truthy (nid n) \<and> is_num (weight n)"
    "\<forall>l\<in>set (links example_graph). is_num (lweight l)"
    "bindable_meta (meta example_graph)"
    by (simp_all add: example_graph_def example_node_def bindable_meta_def is_str_def)
  from sqlite_export_current[OF this, of digits_text unread_sqlite] obtain db
    where db: "exportDataToSQLite digits_text unread_sqlite example_graph = Inr db"
    by blast
  have ex: "map nid (nodes example_graph) = [Str ''A'', Str ''B'', Str ''C'']"
    "map (\<lambda>n. rounded decimal_round2 (weight n)) (nodes example_graph) =
       [Num (1/2), Num (3/10), Num (1/5)]"
    "map (\<lambda>n. text_affinity unread_sqlite (nid n)) (nodes example_graph) =
       [Str ''A'', Str ''B'', Str ''C'']"
    "map (\<lambda>n. real_affinity unread_sqlite (weight n)) (nodes example_graph) =
       [Num (1/2), Num (3/10), Num (1/5)]"
    by (simp_all add: example_graph_def example_node_def rounded_def decimal_round2_examples
        text_affinity_def real_affinity_def)
  from tabular_formats_keep_only_id_and_weight[of decimal_round2 example_graph digits_text
      unread_sqlite wb nan_parseInt "''g.xlsx''" db] wb
  have a: "\<exists>wb r. exportDataToExcel decimal_round2 example_graph = Inr wb \<and>
      exportDataToExcel decimal_round2 (forget example_graph) = Inr wb \<and>
      decode_workbook nan_parseInt ''g.xlsx'' wb = Inr r \<and>
      map nid (nodes r) = [Str ''A'', Str ''B'', Str ''C''] \<and>
      map weight (nodes r) = [Num (1/2), Num (3/10), Num (1/5)] \<and>
      list_all no_other_property (nodes r) \<and> group_names r = None"
    by (auto simp: ex)
  from tabular_formats_keep_only_id_and_weight[of decimal_round2 example_graph digits_text
      unread_sqlite wb nan_parseInt "''g.db''" db] db
  have b: "\<exists>db r. exportDataToSQLite digits_text unread_sqlite example_graph = Inr db \<and>
      exportDataToSQLite digits_text unread_sqlite (forget example_graph) = Inr db \<and>
      decode_sqlite nan_parseInt ''g.db'' db = Inr r \<and>
      map nid (nodes r) = [Str ''A'', Str ''B'', Str ''C''] \<and>
      map weight (nodes r) = [Num (1/2), Num (3/10), Num (1/5)] \<and>
      list_all no_other_property (nodes r) \<and> group_names r = None"
    by (auto simp: ex)
  have c: "map group (nodes example_graph) = [Num 1, Num 1, Num 1]"
    "map group (nodes (forget example_graph)) = [Undefined, Undefined, Undefined]"
    by (simp_all add: example_graph_def example_node_def forget_def forget_node_def)
  from a b c show ?thesis by blast
qed

subsection \<open>Import of a malformed document\<close>

text \<open>
  index.js rejects a document without nodes or without links before it touches the page.
  The application of App.tsx stores the document first and fails later.
\<close>

lemma processResult_missing:
  "jnodes d = None \<or> jlinks d = None \<Longrightarrow> processResult fname d st = (st, Some MissingNodesOrLinks)"
  by (auto simp: processResult_def decode_plain_def split: option.splits)

text \<open>
  An import that succeeds leaves in \<open>globalGraphData\<close> what \<open>renderGraph\<close> stored last:
  the first 200 nodes at most, with the links among them.
\<close>

lemma processResult_stores_filtered:
  assumes "decode_plain d = Inr g"
    and "filter_links (map nid (take (min 200 (length (nodes g))) (nodes g))) (links g) = Inr ls"
  shows "globalGraphData (fst (processResult fname d st)) =
     Some (g\<lparr>nodes := take (min 200 (length (nodes g))) (nodes g), links := ls\<rparr>)"
  using assms by (simp add: processResult_def applyNodeFilter_def renderGraph_def)

lemma decode_plain_missing:
  "(decode_plain d = Inl MissingNodesOrLinks) = (jnodes d = None \<or> jlinks d = None)"
  by (auto simp: decode_plain_def split: option.splits)

lemma handleImport_without_nodes:
  "jnodes d = None \<Longrightarrow>
   handleImport d st =
     (st\<lparr>graphData := Some d, shownStats := (case jmeta d of None \<Rightarrow> None | Some m \<Rightarrow> stats m)\<rparr>,
      Some TypeError)"
  by (simp add: handleImport_def Let_def)

lemma handleImport_without_links:
  "jnodes d = Some ns \<Longrightarrow> jlinks d = None \<Longrightarrow>
   handleImport d st =
     (st\<lparr>graphData := Some d, shownStats := (case jmeta d of None \<Rightarrow> None | Some m \<Rightarrow> stats m),
         nodeCount := min 200 (length ns)\<rparr>,
      Some TypeError)"
  by (simp add: handleImport_def filterData_def Let_def)

text \<open>
  C4. Importing a Plain document that lacks \<open>nodes\<close> or \<open>links\<close> fails, and a failed
  import leaves the live graph as it was. In index.js it does (\<open>processResult_missing\<close>).
  In App.tsx the import of a document without nodes fails, and the graph of the application
  is the malformed document afterwards, not the graph that was shown.
\<close>

theorem handleImport_replaces_graph_on_failure:
  "handleImport doc_without_nodes live_state =
     (live_state\<lparr>graphData := Some doc_without_nodes\<rparr>, Some TypeError) \<and>
   graphData live_state = Some (encode_plain example_graph) \<and>
   Some doc_without_nodes \<noteq> graphData live_state"
  by (simp add: handleImport_def Let_def doc_without_nodes_def live_state_def encode_plain_def)

subsection \<open>Deleting the selected node\<close>

lemma filterData_total:
  "jnodes d = Some ns \<Longrightarrow> jlinks d = Some ls \<Longrightarrow>
   filterData d limit =
     Inr (d\<lparr>jnodes := Some (take limit ns),
            jlinks := Some (filter (\<lambda>l. end_id (source l) \<in> set (map nid (take limit ns)) \<and>
                                         end_id (target l) \<in> set (map nid (take limit ns))) ls)\<rparr>)"
  by (simp add: filterData_def)

text \<open>
  C8. With a node selected in a graph that has its nodes and links, the deletion succeeds,
  clears the selection, and leaves the graph without the nodes of the selected id and
  without the links that have it as an endpoint, meta and group names unchanged; the
  filtered graph for the display is recomputed from it. The JSON export that follows
  writes exactly this graph, so no node and no link endpoint of it has the deleted id;
  the two other export types write nothing.
\<close>

theorem delete_removes_node_and_its_links:
  assumes "selectedNode st = Some sel" and "graphData st = Some g"
    and "jnodes g = Some ns" and "jlinks g = Some ls"
  shows "\<exists>st' g' ns' ls'.
     handleDeleteNode st = Inr st' \<and> selectedNode st' = None \<and>
     graphData st' = Some g' \<and> jnodes g' = Some ns' \<and> jlinks g' = Some ls' \<and>
     ns' = filter (\<lambda>n. nid n \<noteq> nid sel) ns \<and>
     ls' = filter (\<lambda>l. end_id (source l) \<noteq> nid sel \<and> end_id (target l) \<noteq> nid sel) ls \<and>
     nid sel \<notin> set (map nid ns') \<and>
     (\<forall>l\<in>set ls'. end_id (source l) \<noteq> nid sel \<and> end_id (target l) \<noteq> nid sel) \<and>
     jmeta g' = jmeta g \<and> jgroup_names g' = jgroup_names g \<and>
     (\<exists>fd. filteredData st' = Some fd \<and> filterData g' (nodeCount st) = Inr fd) \<and>
     handleExport json st' = Some g' \<and>
     handleExport excel st' = None \<and> handleExport sqlite st' = None"
proof -
  let ?ns = "filter (\<lambda>n. nid n \<noteq> nid sel) ns"
  let ?ls = "filter (\<lambda>l. end_id (source l) \<noteq> nid sel \<and> end_id (target l) \<noteq> nid sel) ls"
  let ?g = "g\<lparr>jnodes := Some ?ns, jlinks := Some ?ls\<rparr>"
  have f: "\<exists>fd. filterData ?g (nodeCount st) = Inr fd"
    by (simp add: filterData_def)
  then obtain fd where fd: "filterData ?g (nodeCount st) = Inr fd" ..
  let ?st = "st\<lparr>graphData := Some ?g, filteredData := Some fd, selectedNode := None, contextOpen := False\<rparr>"
  have d: "handleDeleteNode st = Inr ?st"
    using assms fd by (simp add: handleDeleteNode_def Let_def)
  show ?thesis
    apply (rule exI[of _ ?st], rule exI[of _ ?g], rule exI[of _ ?ns], rule exI[of _ ?ls])
    using fd apply (auto simp: d handleExport_def)
    done
qed

text \<open>The scenario of the specification: deleting B leaves A and C and no link.\<close>

theorem delete_removes_node_and_its_links_witness:
  "\<exists>st' g'. handleDeleteNode (live_state\<lparr>selectedNode := Some (example_node ''B'' (3/10))\<rparr>) = Inr st' \<and>
     selectedNode st' = None \<and> graphData st' = Some g' \<and>
     jnodes g' = Some [example_node ''A'' (1/2), example_node ''C'' (1/5)] \<and>
     jlinks g' = Some [] \<and> handleExport json st' = Some g'"
proof -
  let ?st = "live_state\<lparr>selectedNode := Some (example_node ''B'' (3/10))\<rparr>"
  have a: "selectedNode ?st = Some (example_node ''B'' (3/10))" by simp
  have b: "graphData ?st = Some (encode_plain example_graph)" by (simp add: live_state_def)
  have c: "jnodes (encode_plain example_graph) = Some (nodes example_graph)"
    "jlinks (encode_plain example_graph) = Some (links example_graph)"
    by (simp_all add: encode_plain_def)
  from delete_removes_node_and_its_links[OF a b c]
  show ?thesis
    by (auto simp: example_graph_def example_node_def)
qed


subsection \<open>Highlighting\<close>

text \<open>
  The neighbour set of the Graph component is the selected id with the far ends of the
  links at the selected node. The set of index.js is made of both ends of those links: the
  same set when there is such a link, and empty when there is none.
\<close>

lemma neighborIds_react_fold:
  "fold (\<lambda>l S. let S1 = (if obj_id (source l) = nid d then insert (obj_id (target l)) S else S)
                in if obj_id (target l) = nid d then insert (obj_id (source l)) S1 else S1) ls S0 =
   S0 \<union> {obj_id (target l) | l. l \<in> set ls \<and> obj_id (source l) = nid d}
      \<union> {obj_id (source l) | l. l \<in> set ls \<and> obj_id (target l) = nid d}"
proof (induction ls arbitrary: S0)
  case Nil
  then show ?case by simp
next
  case (Cons l ls)
  have "fold (\<lambda>l S. let S1 = (if obj_id (source l) = nid d then insert (obj_id (target l)) S else S)
                in if obj_id (target l) = nid d then insert (obj_id (source l)) S1 else S1) (l # ls) S0 =
     (let S1 = (if obj_id (source l) = nid d then insert (obj_id (target l)) S0 else S0)
      in if obj_id (target l) = nid d then insert (obj_id (source l)) S1 else S1)
     \<union> {obj_id (target l) | l. l \<in> set ls \<and> obj_id (source l) = nid d}
     \<union> {obj_id (source l) | l. l \<in> set ls \<and> obj_id (target l) = nid d}"
    by (simp only: fold_simps Cons.IH comp_def)
  also have "\<dots> = S0 \<union> {obj_id (target k) | k. k \<in> set (l # ls) \<and> obj_id (source k) = nid d}
      \<union> {obj_id (source k) | k. k \<in> set (l # ls) \<and> obj_id (target k) = nid d}"
  proof (cases "obj_id (source l) = nid d"; cases "obj_id (target l) = nid d")
    assume a: "obj_id (source l) = nid d" "obj_id (target l) = nid d"
    then show ?thesis by (simp only: Let_def if_True) (auto; metis)
  next
    assume a: "obj_id (source l) = nid d" "obj_id (target l) \<noteq> nid d"
    then show ?thesis by (simp only: Let_def if_True if_False) auto
  next
    assume a: "obj_id (source l) \<noteq> nid d" "obj_id (target l) = nid d"
    then show ?thesis by (simp only: Let_def if_True if_False) auto
  next
    assume a: "obj_id (source l) \<noteq> nid d" "obj_id (target l) \<noteq> nid d"
    then show ?thesis by (simp only: Let_def if_True if_False) auto
  qed
  finally show ?case .
qed

lemma neighborIds_react_eq:
  "neighborIds_react ls d =
     {nid d} \<union> {obj_id (target l) | l. l \<in> set ls \<and> obj_id (source l) = nid d}
             \<union> {obj_id (source l) | l. l \<in> set ls \<and> obj_id (target l) = nid d}"
  by (simp only: neighborIds_react_def neighborIds_react_fold)

lemma neighborIds_js_fold:
  "fold (\<lambda>l S. if obj_id (source l) = nid d \<or> obj_id (target l) = nid d
                then insert (obj_id (target l)) (insert (obj_id (source l)) S)
                else S) ls S0 =
   S0 \<union> {v. \<exists>l\<in>set ls. (obj_id (source l) = nid d \<or> obj_id (target l) = nid d) \<and>
                          (v = obj_id (source l) \<or> v = obj_id (target l))}"
proof (induction ls arbitrary: S0)
  case Nil
  then show ?case by simp
next
  case (Cons l ls)
  show ?case
    by (simp only: fold_simps Cons.IH) auto
qed

lemma neighborIds_js_eq:
  "neighborIds_js ls d =
     {v. \<exists>l\<in>set ls. (obj_id (source l) = nid d \<or> obj_id (target l) = nid d) \<and>
                     (v = obj_id (source l) \<or> v = obj_id (target l))}"
  by (simp only: neighborIds_js_def neighborIds_js_fold) simp

text \<open>With a link at the selected node the two computations agree.\<close>

lemma neighborIds_js_linked:
  assumes "\<exists>l\<in>set ls. obj_id (source l) = nid d \<or> obj_id (target l) = nid d"
  shows "neighborIds_js ls d = neighborIds_react ls d"
  using assms unfolding neighborIds_js_eq neighborIds_react_eq by auto

lemma neighborIds_js_isolated:
  assumes "\<forall>l\<in>set ls. obj_id (source l) \<noteq> nid d \<and> obj_id (target l) \<noteq> nid d"
  shows "neighborIds_js ls d = {}" and "neighborIds_react ls d = {nid d}"
  using assms unfolding neighborIds_js_eq neighborIds_react_eq by auto

lemma clearing_restores_opacity:
  "highlight_effect ns ls None = \<lparr>node_opacity = map (\<lambda>n. 1) ns, link_opacity = map (\<lambda>l. 1) ls\<rparr>"
  "resetHighlight ns ls = \<lparr>node_opacity = map (\<lambda>n. 1) ns, link_opacity = map (\<lambda>l. 1) ls\<rparr>"
  by (simp_all add: highlight_effect_def resetHighlight_def)

text \<open>
  In the application a click on the background clears the selection, and the effect on the
  cleared selection draws everything at full opacity.
\<close>

lemma background_click_clears:
  "selectedNode (handleBackgroundClick st) = None"
  "highlight_effect ns ls (selectedNode (handleBackgroundClick st)) = resetHighlight ns ls"
  "selectedNode (handleNodeClick n st) = Some n"
  by (simp_all add: handleBackgroundClick_def handleNodeClick_def highlight_effect_def)

text \<open>In the example graph as drawn, B has A and C as neighbours in both computations.\<close>

lemma example_neighbors_of_B:
  "neighborIds_react drawn_links (example_node ''B'' (3/10)) = {Str ''A'', Str ''B'', Str ''C''}"
  "neighborIds_js drawn_links (example_node ''B'' (3/10)) = {Str ''A'', Str ''B'', Str ''C''}"
  by (auto simp: neighborIds_react_def neighborIds_js_def drawn_links_def example_node_def Let_def)

text \<open>
  C7. The neighbour set of a selected node \<open>n\<close> is \<open>n\<close> with the nodes linked to it, and
  \<open>{n}\<close> when it has no link; clearing the selection gives every node and link full
  opacity (\<open>clearing_restores_opacity\<close>). For a node without links \<open>highlightNeighbors\<close>
  of index.js computes the empty set and leaves the selected node itself dimmed, where the
  Graph component computes \<open>{n}\<close> and shows it at full opacity.
\<close>

theorem highlightNeighbors_isolated_node:
  "neighborIds_js [] (example_node ''A'' (1/2)) = {} \<and>
   node_opacity (highlightNeighbors [example_node ''A'' (1/2)] [] (example_node ''A'' (1/2))) = [1 / 10] \<and>
   neighborIds_react [] (example_node ''A'' (1/2)) = {Str ''A''} \<and>
   node_opacity (highlight_effect [example_node ''A'' (1/2)] [] (Some (example_node ''A'' (1/2)))) = [1]"
  by (simp add: neighborIds_js_def neighborIds_react_def highlightNeighbors_def highlight_effect_def
      example_node_def)

subsection \<open>The layout pass\<close>

lemma run_ticks_funpow:
  "i \<le> 300 \<Longrightarrow> run_ticks lib i s = (sim_tick lib ^^ (300 - i)) s"
proof (induction lib i s rule: run_ticks.induct)
  case (1 lib i s)
  show ?case
  proof (cases "i < 300")
    case True
    then have "300 - i = Suc (300 - (i + 1))" by simp
    then have p: "(sim_tick lib ^^ (300 - i)) s = (sim_tick lib ^^ (300 - (i + 1))) (sim_tick lib s)"
      by (simp only: funpow_Suc_right) simp
    from True have "run_ticks lib i s = run_ticks lib (i + 1) (sim_tick lib s)"
      by (subst run_ticks.simps) simp
    also from True have "\<dots> = (sim_tick lib ^^ (300 - (i + 1))) (sim_tick lib s)"
      by (intro "1.IH") simp_all
    finally show ?thesis
      by (simp add: p)
  next
    case False
    with "1.prems" have "i = 300" by simp
    then show ?thesis
      by (subst run_ticks.simps) simp
  qed
qed

lemma nid_set_motion: "nid (set_motion n m) = nid n"
  by (cases m) simp

lemma map_nid_moved:
  "map nid (map (\<lambda>(i, n). set_motion n (h i n)) (enumerate k ns)) = map nid ns"
  by (induction ns arbitrary: k) (simp_all add: nid_set_motion)

lemma initializeNodes_ids: "map nid (initializeNodes lib ns) = map nid ns"
  by (simp only: initializeNodes_def map_nid_moved)

lemma sim_tick_frame:
  "timer_running (sim_tick lib s) = timer_running s"
  "alphaTarget (sim_tick lib s) = alphaTarget s"
  "sim_links (sim_tick lib s) = sim_links s"
  "alpha (sim_tick lib s) = cool lib (alphaTarget s) (alpha s)"
  "map nid (sim_nodes (sim_tick lib s)) = map nid (sim_nodes s)"
  by (simp_all add: sim_tick_def Let_def map_nid_moved del: map_map)

lemma sim_ticks_frame:
  "timer_running ((sim_tick lib ^^ k) s) = timer_running s"
  "alphaTarget ((sim_tick lib ^^ k) s) = alphaTarget s"
  "sim_links ((sim_tick lib ^^ k) s) = sim_links s"
  "map nid (sim_nodes ((sim_tick lib ^^ k) s)) = map nid (sim_nodes s)"
  by (induction k) (simp_all add: sim_tick_frame)

lemma sim_ticks_alpha:
  "alpha ((sim_tick lib ^^ k) s) = (cool lib (alphaTarget s) ^^ k) (alpha s)"
  by (induction k) (simp_all add: sim_tick_frame sim_ticks_frame)

lemma find_node_in:
  "v \<in> set (map nid ns) \<Longrightarrow> \<exists>n. find_node ns v = Some n"
  by (cases "find_node ns v") (auto simp: find_node_def find_None_iff)

lemma find_node_out:
  "v \<notin> set (map nid ns) \<Longrightarrow> find_node ns v = None"
  by (auto simp: find_node_def find_None_iff)

lemma resolve_end_ok:
  "resolvable (map nid ns) e \<Longrightarrow> \<exists>n. resolve_end ns e = Inr (Ref n)"
proof (cases e)
  case (Raw v)
  assume "resolvable (map nid ns) e"
  with Raw have "v \<in> set (map nid ns)" by simp
  from find_node_in[OF this] Raw show ?thesis by auto
next
  case (Ref n)
  then show ?thesis by simp
qed

lemma resolve_end_fail:
  "\<not> resolvable (map nid ns) e \<Longrightarrow> resolve_end ns e = Inl NodeNotFound"
  by (cases e) (simp_all add: find_node_out)

lemma resolve_end_object: "is_object e \<Longrightarrow> resolve_end ns e = Inr e"
  by (cases e) simp_all

lemma resolve_links_ok:
  "links_resolvable (map nid ns) ls \<Longrightarrow>
   \<exists>rl. resolve_links ns ls = (rl, None) \<and> length rl = length ls \<and> links_resolved rl"
proof (induction ls)
  case Nil
  then show ?case by (simp add: links_resolved_def)
next
  case (Cons l ls)
  from Cons.prems have r: "resolvable (map nid ns) (source l)" "resolvable (map nid ns) (target l)"
    and t: "links_resolvable (map nid ns) ls"
    by (simp_all add: links_resolvable_def)
  from Cons.IH[OF t] obtain rl where rl: "resolve_links ns ls = (rl, None)"
    "length rl = length ls" "links_resolved rl"
    by blast
  from resolve_end_ok[OF r(1)] obtain a where a: "resolve_end ns (source l) = Inr (Ref a)" ..
  from resolve_end_ok[OF r(2)] obtain b where b: "resolve_end ns (target l) = Inr (Ref b)" ..
  from rl a b show ?case
    by (simp add: links_resolved_def)
qed

lemma resolve_links_fail:
  "\<not> links_resolvable (map nid ns) ls \<Longrightarrow> snd (resolve_links ns ls) = Some NodeNotFound"
proof (induction ls)
  case Nil
  then show ?case by (simp add: links_resolvable_def)
next
  case (Cons l ls)
  show ?case
  proof (cases "resolvable (map nid ns) (source l)")
    case False
    from resolve_end_fail[OF this] show ?thesis by simp
  next
    case s: True
    from resolve_end_ok[OF s] obtain a where a: "resolve_end ns (source l) = Inr (Ref a)" ..
    show ?thesis
    proof (cases "resolvable (map nid ns) (target l)")
      case False
      from resolve_end_fail[OF this] a show ?thesis by simp
    next
      case t: True
      from resolve_end_ok[OF t] obtain b where b: "resolve_end ns (target l) = Inr (Ref b)" ..
      from s t Cons.prems have "\<not> links_resolvable (map nid ns) ls"
        by (simp add: links_resolvable_def)
      from Cons.IH[OF this] a b show ?thesis
        by (cases "resolve_links ns ls") simp
    qed
  qed
qed

lemma resolve_links_resolved:
  "links_resolved ls \<Longrightarrow> resolve_links ns ls = (ls, None)"
  by (induction ls) (simp_all add: links_resolved_def resolve_end_object)

lemma force_links_ok:
  assumes "links_resolvable (map nid (sim_nodes s)) ls"
  shows "\<exists>rl. force_links s ls = (s\<lparr>sim_links := rl\<rparr>, None) \<and> length rl = length ls \<and>
           links_resolved rl"
  using resolve_links_ok[OF assms] by (auto simp: force_links_def initialize_links_def)

lemma force_links_fail:
  assumes "\<not> links_resolvable (map nid (sim_nodes s)) ls"
  shows "snd (force_links s ls) = Some NodeNotFound"
  using resolve_links_fail[OF assms]
  by (cases "resolve_links (sim_nodes s) ls") (simp add: force_links_def initialize_links_def)

lemma simulation_nodes_resolved:
  assumes "links_resolved (sim_links s)"
  shows "simulation_nodes lib s ns = (s\<lparr>sim_nodes := initializeNodes lib ns\<rparr>, None)"
  using resolve_links_resolved[OF assms]
  by (simp add: simulation_nodes_def initialize_links_def)

lemma graph_layout_ok:
  assumes "links_resolvable (map nid ns) ls"
  shows "\<exists>s0 s. force_links (forceSimulation lib ns) ls = (s0, None) \<and>
           s = (sim_tick lib ^^ 300) (sim_stop s0) \<and>
           graph_layout lib ns ls = Inr s \<and> \<not> timer_running s \<and>
           alpha s = (cool lib 0 ^^ 300) (alpha_start lib) \<and>
           map nid (sim_nodes s) = map nid ns \<and> length (sim_links s) = length ls \<and>
           links_resolved (sim_links s)"
proof -
  have ids: "map nid (sim_nodes (forceSimulation lib ns)) = map nid ns"
    by (simp add: forceSimulation_def initializeNodes_ids)
  from assms have "links_resolvable (map nid (sim_nodes (forceSimulation lib ns))) ls"
    by (simp only: ids)
  from force_links_ok[OF this] obtain rl where
    f: "force_links (forceSimulation lib ns) ls = ((forceSimulation lib ns)\<lparr>sim_links := rl\<rparr>, None)"
    and len: "length rl = length ls" and res: "links_resolved rl" by blast
  define s0 where "s0 = (forceSimulation lib ns)\<lparr>sim_links := rl\<rparr>"
  define s where "s = (sim_tick lib ^^ 300) (sim_stop s0)"
  have g: "graph_layout lib ns ls = Inr s"
    by (simp add: graph_layout_def f s_def s0_def run_ticks_funpow)
  have p: "\<not> timer_running s" "alpha s = (cool lib 0 ^^ 300) (alpha_start lib)"
    "map nid (sim_nodes s) = map nid ns" "length (sim_links s) = length ls"
    "links_resolved (sim_links s)"
    unfolding s_def
    by (simp_all only: sim_ticks_frame sim_ticks_alpha)
       (simp_all add: s0_def sim_stop_def forceSimulation_def initializeNodes_ids len res)
  from f g p show ?thesis
    unfolding s0_def[symmetric] using s_def by blast
qed

lemma graph_layout_fail:
  "(graph_layout lib ns ls = Inl NodeNotFound) = (\<not> links_resolvable (map nid ns) ls)"
proof (cases "links_resolvable (map nid ns) ls")
  case True
  from graph_layout_ok[OF True, of lib] True show ?thesis by auto
next
  case False
  have ids: "map nid (sim_nodes (forceSimulation lib ns)) = map nid ns"
    by (simp add: forceSimulation_def initializeNodes_ids)
  from False have "\<not> links_resolvable (map nid (sim_nodes (forceSimulation lib ns))) ls"
    by (simp only: ids simp_thms)
  from force_links_fail[OF this] False show ?thesis
    by (cases "force_links (forceSimulation lib ns) ls") (simp add: graph_layout_def)
qed

lemma renderGraph_layout_ok:
  assumes res: "links_resolved (sim_links p)"
    and ok: "links_resolvable (map nid (nodes g)) (links g)"
  shows "\<exists>s1 s2 r.
           simulation_nodes lib p (map (\<lambda>n. n\<lparr>nsize := size_of (weight n)\<rparr>) (nodes g)) = (s1, None) \<and>
           force_links s1 (map (\<lambda>l. l\<lparr>lvalue := lweight l\<rparr>) (links g)) = (s2, None) \<and>
           r = (sim_tick lib ^^ 300) (s2\<lparr>alpha := alpha_start lib\<rparr>) \<and>
           renderGraph_layout lib size_of p g = (r, None) \<and>
           timer_running r = timer_running p \<and>
           alpha r = (cool lib (alphaTarget p) ^^ 300) (alpha_start lib) \<and>
           map nid (sim_nodes r) = map nid (nodes g) \<and> length (sim_links r) = length (links g) \<and>
           links_resolved (sim_links r)"
proof -
  let ?ns = "map (\<lambda>n. n\<lparr>nsize := size_of (weight n)\<rparr>) (nodes g)"
  let ?ls = "map (\<lambda>l. l\<lparr>lvalue := lweight l\<rparr>) (links g)"
  define s1 where "s1 = p\<lparr>sim_nodes := initializeNodes lib ?ns\<rparr>"
  have n: "simulation_nodes lib p ?ns = (s1, None)"
    by (simp add: simulation_nodes_resolved[OF res] s1_def)
  have ids: "map nid (sim_nodes s1) = map nid (nodes g)"
    by (simp add: s1_def initializeNodes_ids comp_def)
  from ok have "links_resolvable (map nid (sim_nodes s1)) ?ls"
    by (simp only: ids) (simp add: links_resolvable_def list_all_iff)
  from force_links_ok[OF this] obtain rl where
    f: "force_links s1 ?ls = (s1\<lparr>sim_links := rl\<rparr>, None)"
    and len: "length rl = length (links g)" and rr: "links_resolved rl" by auto
  define s2 where "s2 = s1\<lparr>sim_links := rl\<rparr>"
  define r where "r = (sim_tick lib ^^ 300) (s2\<lparr>alpha := alpha_start lib\<rparr>)"
  have g: "renderGraph_layout lib size_of p g = (r, None)"
    by (simp add: renderGraph_layout_def Let_def n f r_def s2_def run_ticks_funpow)
  have q: "timer_running r = timer_running p"
    "alpha r = (cool lib (alphaTarget p) ^^ 300) (alpha_start lib)"
    "map nid (sim_nodes r) = map nid (nodes g)" "length (sim_links r) = length (links g)"
    "links_resolved (sim_links r)"
    unfolding r_def
    by (simp_all only: sim_ticks_frame sim_ticks_alpha)
       (simp_all add: s2_def s1_def initializeNodes_ids len rr comp_def)
  from n f g q show ?thesis
    unfolding s2_def[symmetric] using r_def by blast
qed

text \<open>What the two filters pass to the layout.\<close>

lemma end_id_resolvable: "end_id e \<in> set ids \<Longrightarrow> resolvable ids e"
  by (cases e) simp_all

lemma filterData_resolvable:
  assumes "filterData d limit = Inr fd" and "jnodes fd = Some ns" and "jlinks fd = Some ls"
  shows "links_resolvable (map nid ns) ls"
  using assms
  by (auto simp: filterData_def links_resolvable_def list_all_iff end_id_resolvable
      split: option.splits)

lemma has_end_resolvable:
  "has_end ids e = Inr True \<Longrightarrow> Undefined \<notin> set ids \<Longrightarrow> resolvable ids e"
  by (cases e) (auto split: if_splits)

lemma filter_links_resolvable:
  "filter_links ids ls0 = Inr ls \<Longrightarrow> Undefined \<notin> set ids \<Longrightarrow> links_resolvable ids ls"
proof (induction ls0 arbitrary: ls)
  case Nil
  then show ?case by (simp add: links_resolvable_def)
next
  case (Cons l ls0)
  show ?case
  proof (cases "has_end ids (source l)")
    case (Inl e)
    with Cons.prems show ?thesis by simp
  next
    case a: (Inr a)
    show ?thesis
    proof (cases a)
      case False
      with a Cons show ?thesis by simp
    next
      case True
      show ?thesis
      proof (cases "has_end ids (target l)")
        case (Inl e)
        with a True Cons.prems show ?thesis by simp
      next
        case b: (Inr b)
        show ?thesis
        proof (cases "filter_links ids ls0")
          case (Inl e)
          with a b True Cons.prems show ?thesis by simp
        next
          case r: (Inr r)
          from Cons.IH[OF r Cons.prems(2)] have ih: "links_resolvable ids r" .
          show ?thesis
          proof (cases b)
            case False
            with a b r True Cons.prems ih show ?thesis by simp
          next
            case bt: True
            from a True have "resolvable ids (source l)"
              using has_end_resolvable[OF _ Cons.prems(2)] by simp
            moreover from b bt have "resolvable ids (target l)"
              using has_end_resolvable[OF _ Cons.prems(2)] by simp
            ultimately show ?thesis
              using a b r True bt Cons.prems ih by (auto simp: links_resolvable_def)
          qed
        qed
      qed
    qed
  qed
qed

lemma has_end_Nil: "has_end [] e \<noteq> Inr True"
  by (cases e) simp_all

lemma filter_links_Nil: "filter_links [] ls0 = Inr ls \<Longrightarrow> ls = []"
  by (induction ls0 arbitrary: ls) (use has_end_Nil in \<open>auto split: sum.splits if_splits\<close>)

lemma update_node_ids: "map nid (update_node i (\<lambda>d. d\<lparr>xpos := x, ypos := y\<rparr>) ns) = map nid ns"
  by (simp add: update_node_def map_update list_eq_iff_nth_eq nth_list_update)

lemma drag_timer:
  "timer_running (page_drag ev s) = timer_running s"
  "alphaTarget (page_drag ev s) = alphaTarget s"
  "sim_links (page_drag ev s) = sim_links s"
  "timer_running (graph_drag (Dragged i x y) s) = timer_running s"
  "timer_running (graph_drag (DragEnd a i) s) = timer_running s"
  "timer_running (graph_drag (DragStart True i) s) = timer_running s"
  "timer_running (graph_drag (DragStart False i) s)"
  "alphaTarget (graph_drag (DragStart False i) s) = 3 / 10"
  by (cases ev; simp add: Let_def sim_restart_def)+

text \<open>The steps of the library of the examples.\<close>

lemma map_enumerate_snd: "map (\<lambda>(i, n). h n) (enumerate k ns) = map h ns"
  by (induction ns arbitrary: k) simp_all

lemma counting_tick_nodes:
  "sim_nodes (sim_tick counting_d3 s) = map (\<lambda>n. n\<lparr>xpos := drift (xpos n)\<rparr>) (sim_nodes s)"
proof -
  have "set_motion n (drift (xpos n), ypos n, vx n, vy n) = n\<lparr>xpos := drift (xpos n)\<rparr>" for n
    by simp
  then show ?thesis
    by (simp add: sim_tick_def Let_def counting_d3_def map_enumerate_snd)
qed

lemma counting_ticks_nodes:
  "sim_nodes ((sim_tick counting_d3 ^^ k) s) =
     map (\<lambda>n. n\<lparr>xpos := (drift ^^ k) (xpos n)\<rparr>) (sim_nodes s)"
proof (induction k)
  case 0
  then show ?case by simp
next
  case (Suc k)
  then show ?case
    by (simp add: counting_tick_nodes comp_def)
qed

lemma drift_funpow: "(drift ^^ k) (Num x) = Num (x + of_nat k)"
  by (induction k) (simp_all add: drift_def algebra_simps)

lemma initialize_links_nodes: "sim_nodes (fst (initialize_links s)) = sim_nodes s"
  by (cases "resolve_links (sim_nodes s) (sim_links s)") (simp add: initialize_links_def)

lemma counting_positions:
  assumes "map xpos (sim_nodes s) = [Num 0, Num 1, Num 2]"
  shows "map xpos (sim_nodes ((sim_tick counting_d3 ^^ 300) s)) = [Num 300, Num 301, Num 302]"
proof -
  have "map xpos (sim_nodes ((sim_tick counting_d3 ^^ 300) s)) =
      map (drift ^^ 300) (map xpos (sim_nodes s))"
    by (simp only: counting_ticks_nodes) (simp add: comp_def)
  then show ?thesis
    by (simp only: assms) (simp add: drift_funpow)
qed

lemma counting_places:
  "map xpos (initializeNodes counting_d3 [a, b, c]) = [Num 0, Num 1, Num 2]"
  by (simp add: initializeNodes_def counting_d3_def)

text \<open>
  C6. The layout pass does not fail on links it can resolve, which are those whose
  endpoints are node objects or ids of the nodes: it steps the simulation exactly 300
  times by hand and leaves its timer as it was before the steps, stopped; alpha has cooled
  300 times, the nodes are those of the graph, in order, and every link is resolved. In
  index.js this holds on the simulation of the page as long as the links it holds from
  the layout before are resolved, as they are when the page is loaded, after a layout that
  did not fail, and after a drag. Both filters in front of the layout leave links it can
  resolve: \<open>filterData\<close> always, the filter of \<open>applyNodeFilter\<close> when every node has an
  id. Without nodes the filters leave no link, and the pass returns a simulation without
  nodes and links, and no error. The pass fails with "node not found", before the first
  step, exactly when a link has an endpoint that is not an object and not the id of a node.
  The simulation of index.js is made stopped, and no drag handler of index.js starts the
  timer. In the Graph component the start of a drag, when no other drag is active, sets the
  target alpha to 0.3 and restarts the timer, and no other handler changes whether it runs.
\<close>

theorem layout_runs_300_steps_and_stops:
  "(links_resolvable (map nid ns) ls \<longrightarrow>
      (\<exists>s0 s. force_links (forceSimulation lib ns) ls = (s0, None) \<and>
              s = (sim_tick lib ^^ 300) (sim_stop s0) \<and>
              graph_layout lib ns ls = Inr s \<and> \<not> timer_running s \<and>
              alpha s = (cool lib 0 ^^ 300) (alpha_start lib) \<and>
              map nid (sim_nodes s) = map nid ns \<and> length (sim_links s) = length ls \<and>
              links_resolved (sim_links s))) \<and>
   (links_resolved (sim_links p) \<and> links_resolvable (map nid (nodes g)) (links g) \<longrightarrow>
      (\<exists>s1 s2 r.
         simulation_nodes lib p (map (\<lambda>n. n\<lparr>nsize := size_of (weight n)\<rparr>) (nodes g)) = (s1, None) \<and>
         force_links s1 (map (\<lambda>l. l\<lparr>lvalue := lweight l\<rparr>) (links g)) = (s2, None) \<and>
         r = (sim_tick lib ^^ 300) (s2\<lparr>alpha := alpha_start lib\<rparr>) \<and>
         renderGraph_layout lib size_of p g = (r, None) \<and>
         timer_running r = timer_running p \<and>
         alpha r = (cool lib (alphaTarget p) ^^ 300) (alpha_start lib) \<and>
         map nid (sim_nodes r) = map nid (nodes g) \<and> length (sim_links r) = length (links g) \<and>
         links_resolved (sim_links r))) \<and>
   (filterData d limit = Inr fd \<and> jnodes fd = Some fns \<and> jlinks fd = Some fls \<longrightarrow>
      links_resolvable (map nid fns) fls) \<and>
   (filter_links ids ls0 = Inr fl \<and> Undefined \<notin> set ids \<longrightarrow> links_resolvable ids fl) \<and>
   (filterData d' limit' = Inr fd' \<and> jnodes fd' = Some [] \<longrightarrow> jlinks fd' = Some []) \<and>
   (filter_links [] ls1 = Inr fl1 \<longrightarrow> fl1 = []) \<and>
   (\<exists>r. graph_layout lib [] [] = Inr r \<and> sim_nodes r = [] \<and> sim_links r = [] \<and>
        \<not> timer_running r) \<and>
   (links_resolved (sim_links p) \<and> nodes e = [] \<and> links e = [] \<longrightarrow>
      (\<exists>r. renderGraph_layout lib size_of p e = (r, None) \<and> sim_nodes r = [] \<and>
           sim_links r = [] \<and> timer_running r = timer_running p)) \<and>
   (graph_layout lib ns2 ls2 = Inl NodeNotFound) = (\<not> links_resolvable (map nid ns2) ls2) \<and>
   \<not> timer_running (page_simulation lib) \<and>
   links_resolved (sim_links (page_simulation lib)) \<and>
   timer_running (page_drag ev s) = timer_running s \<and>
   sim_links (page_drag ev s) = sim_links s \<and>
   timer_running (graph_drag (Dragged i x y) s) = timer_running s \<and>
   timer_running (graph_drag (DragEnd a i) s) = timer_running s \<and>
   timer_running (graph_drag (DragStart True i) s) = timer_running s \<and>
   timer_running (graph_drag (DragStart False i) s) \<and>
   alphaTarget (graph_drag (DragStart False i) s) = 3 / 10"
proof -
  have A: "links_resolvable (map nid ns) ls \<longrightarrow>
      (\<exists>s0 s. force_links (forceSimulation lib ns) ls = (s0, None) \<and>
              s = (sim_tick lib ^^ 300) (sim_stop s0) \<and>
              graph_layout lib ns ls = Inr s \<and> \<not> timer_running s \<and>
              alpha s = (cool lib 0 ^^ 300) (alpha_start lib) \<and>
              map nid (sim_nodes s) = map nid ns \<and> length (sim_links s) = length ls \<and>
              links_resolved (sim_links s))"
    using graph_layout_ok by blast
  have B: "links_resolved (sim_links p) \<and> links_resolvable (map nid (nodes g)) (links g) \<longrightarrow>
      (\<exists>s1 s2 r.
         simulation_nodes lib p (map (\<lambda>n. n\<lparr>nsize := size_of (weight n)\<rparr>) (nodes g)) = (s1, None) \<and>
         force_links s1 (map (\<lambda>l. l\<lparr>lvalue := lweight l\<rparr>) (links g)) = (s2, None) \<and>
         r = (sim_tick lib ^^ 300) (s2\<lparr>alpha := alpha_start lib\<rparr>) \<and>
         renderGraph_layout lib size_of p g = (r, None) \<and>
         timer_running r = timer_running p \<and>
         alpha r = (cool lib (alphaTarget p) ^^ 300) (alpha_start lib) \<and>
         map nid (sim_nodes r) = map nid (nodes g) \<and> length (sim_links r) = length (links g) \<and>
         links_resolved (sim_links r))"
    using renderGraph_layout_ok by blast
  have C: "filterData d limit = Inr fd \<and> jnodes fd = Some fns \<and> jlinks fd = Some fls \<longrightarrow>
      links_resolvable (map nid fns) fls"
    using filterData_resolvable by blast
  have D: "filter_links ids ls0 = Inr fl \<and> Undefined \<notin> set ids \<longrightarrow> links_resolvable ids fl"
    using filter_links_resolvable by blast
  have E: "filterData d' limit' = Inr fd' \<and> jnodes fd' = Some [] \<longrightarrow> jlinks fd' = Some []"
    by (auto simp: filterData_def split: option.splits)
  have F: "filter_links [] ls1 = Inr fl1 \<longrightarrow> fl1 = []"
    using filter_links_Nil by blast
  have G: "\<exists>r. graph_layout lib [] [] = Inr r \<and> sim_nodes r = [] \<and> sim_links r = [] \<and>
        \<not> timer_running r"
    using graph_layout_ok[of "[]" "[]" lib] by (auto simp: links_resolvable_def)
  have H: "links_resolved (sim_links p) \<and> nodes e = [] \<and> links e = [] \<longrightarrow>
      (\<exists>r. renderGraph_layout lib size_of p e = (r, None) \<and> sim_nodes r = [] \<and>
           sim_links r = [] \<and> timer_running r = timer_running p)"
  proof (intro impI, elim conjE)
    assume r: "links_resolved (sim_links p)" and n: "nodes e = []" and l: "links e = []"
    from n l have "links_resolvable (map nid (nodes e)) (links e)"
      by (simp add: links_resolvable_def)
    from renderGraph_layout_ok[OF r this, of lib size_of] n l
    show "\<exists>r. renderGraph_layout lib size_of p e = (r, None) \<and> sim_nodes r = [] \<and>
           sim_links r = [] \<and> timer_running r = timer_running p"
      by auto
  qed
  have I: "\<not> timer_running (page_simulation lib)"
    "links_resolved (sim_links (page_simulation lib))"
    by (simp_all add: page_simulation_def sim_stop_def forceSimulation_def links_resolved_def)
  note J = graph_layout_fail[of lib ns2 ls2]
  show ?thesis
    by (intro conjI A B C D E F G H I J drag_timer)
qed

theorem layout_runs_300_steps_and_stops_witness:
  "(\<exists>s. graph_layout counting_d3 (nodes example_graph) (links example_graph) = Inr s \<and>
        \<not> timer_running s \<and> alpha s = 300 \<and>
        map nid (sim_nodes s) = [Str ''A'', Str ''B'', Str ''C''] \<and>
        map xpos (sim_nodes s) = [Num 300, Num 301, Num 302] \<and> length (sim_links s) = 2) \<and>
   (\<exists>r. renderGraph_layout counting_d3 (\<lambda>w. Num 5) (page_simulation counting_d3) example_graph =
          (r, None) \<and>
        \<not> timer_running r \<and> alpha r = 300 \<and>
        map nid (sim_nodes r) = [Str ''A'', Str ''B'', Str ''C''] \<and>
        map xpos (sim_nodes r) = [Num 300, Num 301, Num 302] \<and> length (sim_links r) = 2) \<and>
   filterData (encode_plain example_graph) 3 = Inr (encode_plain example_graph) \<and>
   filter_links (map nid (nodes example_graph)) (links example_graph) =
     Inr (links example_graph) \<and>
   filterData (encode_plain example_graph) 0 =
     Inr \<lparr>jnodes = Some [], jlinks = Some [], jmeta = None, jgroup_names = None\<rparr> \<and>
   filter_links [] (links example_graph) = Inr [] \<and>
   (\<exists>r. renderGraph_layout counting_d3 (\<lambda>w. Num 5) (page_simulation counting_d3)
          \<lparr>nodes = [], links = [], meta = None, group_names = None\<rparr> = (r, None) \<and>
        sim_nodes r = [] \<and> sim_links r = [] \<and> \<not> timer_running r)"
proof -
  have fd: "filterData (encode_plain example_graph) 3 = Inr (encode_plain example_graph)"
    "jnodes (encode_plain example_graph) = Some (nodes example_graph)"
    "jlinks (encode_plain example_graph) = Some (links example_graph)"
    by (simp_all add: filterData_def encode_plain_def example_graph_def example_node_def)
  have fl: "filter_links (map nid (nodes example_graph)) (links example_graph) =
      Inr (links example_graph)"
    "Undefined \<notin> set (map nid (nodes example_graph))"
    by (simp_all add: example_graph_def example_node_def)
  have f0: "filterData (encode_plain example_graph) 0 =
     Inr \<lparr>jnodes = Some [], jlinks = Some [], jmeta = None, jgroup_names = None\<rparr>"
    by (simp add: filterData_def encode_plain_def example_graph_def)
  have e0: "filter_links [] (links example_graph) = Inr []"
    by (simp add: example_graph_def)
  have ex: "map nid (nodes example_graph) = [Str ''A'', Str ''B'', Str ''C'']"
    "length (links example_graph) = 2"
    by (simp_all add: example_graph_def example_node_def)
  have c: "(cool counting_d3 t ^^ 300) (alpha_start counting_d3) = 300" for t
    by (simp add: counting_d3_def)
  note t = layout_runs_300_steps_and_stops[where ns = "nodes example_graph"
      and ls = "links example_graph" and lib = counting_d3 and g = example_graph
      and p = "page_simulation counting_d3" and size_of = "\<lambda>w. Num 5"
      and d = "encode_plain example_graph" and limit = 3
      and fd = "encode_plain example_graph" and fns = "nodes example_graph"
      and fls = "links example_graph" and ids = "map nid (nodes example_graph)"
      and ?ls0.0 = "links example_graph" and fl = "links example_graph"
      and d' = "encode_plain example_graph" and limit' = 0
      and fd' = "\<lparr>jnodes = Some [], jlinks = Some [], jmeta = None, jgroup_names = None\<rparr>"
      and ?ls1.0 = "links example_graph" and ?fl1.0 = "[]"
      and e = "\<lparr>nodes = [], links = [], meta = None, group_names = None\<rparr>"]
  note t3 = t[THEN conjunct2, THEN conjunct2]
  note t4 = t3[THEN conjunct2]
  note t8 = t4[THEN conjunct2, THEN conjunct2, THEN conjunct2, THEN conjunct2]
  note t10 = t8[THEN conjunct2, THEN conjunct2]
  from t3[THEN conjunct1] fd have r1: "links_resolvable (map nid (nodes example_graph)) (links example_graph)"
    by simp
  from t4[THEN conjunct1] fl have r2: "links_resolvable (map nid (nodes example_graph)) (links example_graph)"
    by simp
  have ps: "\<not> timer_running (page_simulation counting_d3)"
    "links_resolved (sim_links (page_simulation counting_d3))"
    by (rule t10[THEN conjunct1], rule t10[THEN conjunct2, THEN conjunct1])
  from t[THEN conjunct1] r1 obtain s0 s where
    s: "force_links (forceSimulation counting_d3 (nodes example_graph)) (links example_graph) =
          (s0, None)"
      "s = (sim_tick counting_d3 ^^ 300) (sim_stop s0)"
      "graph_layout counting_d3 (nodes example_graph) (links example_graph) = Inr s"
      "\<not> timer_running s" "alpha s = 300"
      "map nid (sim_nodes s) = [Str ''A'', Str ''B'', Str ''C'']" "length (sim_links s) = 2"
    by (auto simp: c ex)
  from s(1) initialize_links_nodes[of "(forceSimulation counting_d3 (nodes example_graph))
      \<lparr>sim_links := links example_graph\<rparr>"]
  have "map xpos (sim_nodes (sim_stop s0)) = [Num 0, Num 1, Num 2]"
    by (simp add: force_links_def forceSimulation_def sim_stop_def example_graph_def
        counting_places)
  from counting_positions[OF this] s(2)
  have xs: "map xpos (sim_nodes s) = [Num 300, Num 301, Num 302]" by simp
  have a: "\<exists>s. graph_layout counting_d3 (nodes example_graph) (links example_graph) = Inr s \<and>
        \<not> timer_running s \<and> alpha s = 300 \<and>
        map nid (sim_nodes s) = [Str ''A'', Str ''B'', Str ''C''] \<and>
        map xpos (sim_nodes s) = [Num 300, Num 301, Num 302] \<and> length (sim_links s) = 2"
    by (rule exI[of _ s]) (simp add: s(3-7) xs)
  let ?ns = "map (\<lambda>n. n\<lparr>nsize := Num 5\<rparr>) (nodes example_graph)"
  let ?ls = "map (\<lambda>l. l\<lparr>lvalue := lweight l\<rparr>) (links example_graph)"
  from t[THEN conjunct2, THEN conjunct1] r2 ps obtain s1 s2 r where
    r: "simulation_nodes counting_d3 (page_simulation counting_d3) ?ns = (s1, None)"
      "force_links s1 ?ls = (s2, None)"
      "r = (sim_tick counting_d3 ^^ 300) (s2\<lparr>alpha := alpha_start counting_d3\<rparr>)"
      "renderGraph_layout counting_d3 (\<lambda>w. Num 5) (page_simulation counting_d3) example_graph =
         (r, None)"
      "\<not> timer_running r" "alpha r = 300"
      "map nid (sim_nodes r) = [Str ''A'', Str ''B'', Str ''C'']" "length (sim_links r) = 2"
    by (auto simp: c ex)
  from r(1) initialize_links_nodes[of "(page_simulation counting_d3)
      \<lparr>sim_nodes := initializeNodes counting_d3 ?ns\<rparr>"]
  have "map xpos (sim_nodes s1) = [Num 0, Num 1, Num 2]"
    by (simp add: simulation_nodes_def example_graph_def counting_places)
  with r(2) initialize_links_nodes[of "s1\<lparr>sim_links := ?ls\<rparr>"]
  have "map xpos (sim_nodes (s2\<lparr>alpha := alpha_start counting_d3\<rparr>)) = [Num 0, Num 1, Num 2]"
    by (simp add: force_links_def)
  from counting_positions[OF this] r(3)
  have xr: "map xpos (sim_nodes r) = [Num 300, Num 301, Num 302]" by simp
  have b: "\<exists>r. renderGraph_layout counting_d3 (\<lambda>w. Num 5) (page_simulation counting_d3)
          example_graph = (r, None) \<and>
        \<not> timer_running r \<and> alpha r = 300 \<and>
        map nid (sim_nodes r) = [Str ''A'', Str ''B'', Str ''C''] \<and>
        map xpos (sim_nodes r) = [Num 300, Num 301, Num 302] \<and> length (sim_links r) = 2"
    by (rule exI[of _ r]) (simp add: r(4-8) xr)
  from t8[THEN conjunct1] ps
  have e: "\<exists>r. renderGraph_layout counting_d3 (\<lambda>w. Num 5) (page_simulation counting_d3)
          \<lparr>nodes = [], links = [], meta = None, group_names = None\<rparr> = (r, None) \<and>
        sim_nodes r = [] \<and> sim_links r = [] \<and> \<not> timer_running r"
    by simp
  from a b fd(1) fl(1) f0 e0 e show ?thesis by blast
qed

text \<open>
  After the 300 steps of the layout the simulation of the Graph component runs again on its
  timer once a node is dragged.
\<close>

theorem drag_restarts_simulation_after_layout:
  "\<exists>s. graph_layout counting_d3 (nodes example_graph) (links example_graph) = Inr s \<and>
       alpha s = 300 \<and> \<not> timer_running s \<and>
       timer_running (graph_drag (DragStart False 0) s) \<and>
       alphaTarget (graph_drag (DragStart False 0) s) = 3 / 10"
proof -
  have "links_resolvable (map nid (nodes example_graph)) (links example_graph)"
    by (simp add: links_resolvable_def example_graph_def example_node_def)
  from graph_layout_ok[OF this, of counting_d3] obtain s where
    s: "graph_layout counting_d3 (nodes example_graph) (links example_graph) = Inr s"
      "\<not> timer_running s" "alpha s = (cool counting_d3 0 ^^ 300) (alpha_start counting_d3)"
    by blast
  have "(cool counting_d3 0 ^^ 300) (alpha_start counting_d3) = 300"
    by (simp add: counting_d3_def)
  with s drag_timer(7,8)[of 0 s] show ?thesis by auto
qed

text \<open>
  A link to an id that is no node stops the layout before its first step. In index.js the
  link stays in the link force of the page, and the next layout fails on it when the
  simulation is given its nodes, whatever the graph then is, as long as that id is still no
  node.
\<close>

lemma layout_of_dangling_link:
  "graph_layout lib (nodes dangling_graph) (links dangling_graph) = Inl NodeNotFound"
  by (simp add: graph_layout_fail links_resolvable_def dangling_graph_def example_node_def)

lemma layout_after_failed_layout:
  "snd (renderGraph_layout lib f (page_simulation lib) dangling_graph) = Some NodeNotFound \<and>
   snd (renderGraph_layout lib f (fst (renderGraph_layout lib f (page_simulation lib) dangling_graph))
          example_graph) = Some NodeNotFound"
proof -
  define n where "n = set_motion ((example_node ''A'' (1/2))\<lparr>nsize := f (Num (1/2))\<rparr>)
      (place lib 0 ((example_node ''A'' (1/2))\<lparr>nsize := f (Num (1/2))\<rparr>))"
  define l where "l = \<lparr>source = Ref n, target = Raw (Str ''Z''), lweight = Num 1, lvalue = Num 1\<rparr>"
  have idn: "nid n = Str ''A''"
    by (simp add: n_def nid_set_motion example_node_def)
  have i: "initializeNodes lib (map (\<lambda>n. n\<lparr>nsize := f (weight n)\<rparr>) (nodes dangling_graph)) = [n]"
    by (simp add: initializeNodes_def dangling_graph_def n_def example_node_def)
  have i0: "initializeNodes lib [] = []"
    by (simp add: initializeNodes_def)
  have ls: "map (\<lambda>l. l\<lparr>lvalue := lweight l\<rparr>) (links dangling_graph) =
      [\<lparr>source = Raw (Str ''A''), target = Raw (Str ''Z''), lweight = Num 1, lvalue = Num 1\<rparr>]"
    by (simp add: dangling_graph_def)
  have first: "renderGraph_layout lib f (page_simulation lib) dangling_graph =
      ((page_simulation lib)\<lparr>sim_nodes := [n], sim_links := [l]\<rparr>, Some NodeNotFound)"
    by (simp add: renderGraph_layout_def Let_def simulation_nodes_def initialize_links_def i i0 ls
        force_links_def page_simulation_def forceSimulation_def sim_stop_def
        find_node_def idn l_def)
  have "Str ''Z'' \<notin> set (map nid (initializeNodes lib ms))" if "Str ''Z'' \<notin> set (map nid ms)" for ms
    using that by (simp only: initializeNodes_ids simp_thms)
  then have z: "find_node (initializeNodes lib
      (map (\<lambda>n. n\<lparr>nsize := f (weight n)\<rparr>) (nodes example_graph))) (Str ''Z'') = None"
    by (intro find_node_out) (simp add: example_graph_def example_node_def comp_def)
  have second: "snd (renderGraph_layout lib f ((page_simulation lib)\<lparr>sim_nodes := [n], sim_links := [l]\<rparr>)
      example_graph) = Some NodeNotFound"
    by (simp add: renderGraph_layout_def Let_def simulation_nodes_def initialize_links_def l_def z)
  from first second show ?thesis by simp
qed

end
